theory Spec2Isabelle
  imports Complex_Main "HOL-Library.Word" "HOL-Library.AList" "HOL-Library.Code_Target_Numeral"
begin

unbundle bit_operations_syntax

section \<open>Go strings\<close>

text \<open>
  A Go string is a sequence of bytes; it is modelled as a \<open>string\<close> (a list of 8-bit
  characters). \<open>strings.HasPrefix(s, prefix)\<close> is
  \<^verbatim>\<open>len(s) >= len(prefix) && s[:len(prefix)] == prefix\<close>.
\<close>

definition HasPrefix :: "string \<Rightarrow> string \<Rightarrow> bool" where
  "HasPrefix s pre = (length pre \<le> length s \<and> take (length pre) s = pre)"

text \<open>
  \<open>strings.TrimSpace\<close> removes leading and trailing Unicode white space. On UTF-8 bytes
  the white-space code points of \<open>unicode.IsSpace\<close> are exactly the following byte
  sequences: the six ASCII ones, U+0085, U+00A0, U+1680, U+2000 to U+200A, U+2028,
  U+2029, U+202F, U+205F and U+3000.
\<close>

definition space_encodings :: "string list" where
  "space_encodings =
    [[CHR 0x09], [CHR 0x0A], [CHR 0x0B], [CHR 0x0C], [CHR 0x0D], [CHR 0x20],
     [CHR 0xC2, CHR 0x85], [CHR 0xC2, CHR 0xA0],
     [CHR 0xE1, CHR 0x9A, CHR 0x80],
     [CHR 0xE2, CHR 0x80, CHR 0x80], [CHR 0xE2, CHR 0x80, CHR 0x81],
     [CHR 0xE2, CHR 0x80, CHR 0x82], [CHR 0xE2, CHR 0x80, CHR 0x83],
     [CHR 0xE2, CHR 0x80, CHR 0x84], [CHR 0xE2, CHR 0x80, CHR 0x85],
     [CHR 0xE2, CHR 0x80, CHR 0x86], [CHR 0xE2, CHR 0x80, CHR 0x87],
     [CHR 0xE2, CHR 0x80, CHR 0x88], [CHR 0xE2, CHR 0x80, CHR 0x89],
     [CHR 0xE2, CHR 0x80, CHR 0x8A],
     [CHR 0xE2, CHR 0x80, CHR 0xA8], [CHR 0xE2, CHR 0x80, CHR 0xA9],
     [CHR 0xE2, CHR 0x80, CHR 0xAF], [CHR 0xE2, CHR 0x81, CHR 0x9F],
     [CHR 0xE3, CHR 0x80, CHR 0x80]]"

fun trim_left :: "string list \<Rightarrow> string \<Rightarrow> string" where
  "trim_left encs [] = []"
| "trim_left encs (c # cs) =
     (case find (\<lambda>e. e \<noteq> [] \<and> HasPrefix (c # cs) e) encs of
        None \<Rightarrow> c # cs
      | Some e \<Rightarrow> trim_left encs (drop (length e - 1) cs))"

definition TrimSpace :: "string \<Rightarrow> string" where
  "TrimSpace s = rev (trim_left (map rev space_encodings) (rev (trim_left space_encodings s)))"


section \<open>Identity and request context (package auth, context.go)\<close>

datatype AuthType = AuthJWT | AuthAPIKey

record Identity =
  Type :: AuthType
  Subject :: string
  Roles :: "string list"
  Issuer :: string
  Audience :: string

text \<open>
  A \<open>context.Context\<close> is a chain of key/value bindings; \<open>Value\<close> returns the
  innermost binding of a key. The two keys of the repository have distinct Go types
  (\<open>contextKey\<close> in package auth, \<open>userIDKeyType\<close> in package ratelimit), so they
  never collide. The authenticators only ever store a non-nil \<open>*Identity\<close>.
\<close>

datatype ctx_key = identityKey | UserIDKey

datatype ctx_value = IdentityPtr Identity | StringValue string

type_synonym ctx = "(ctx_key \<times> ctx_value) list"

definition WithValue :: "ctx \<Rightarrow> ctx_key \<Rightarrow> ctx_value \<Rightarrow> ctx" where
  "WithValue ctx k v = (k, v) # ctx"

definition Value :: "ctx \<Rightarrow> ctx_key \<Rightarrow> ctx_value option" where
  "Value ctx k = map_of ctx k"

definition WithIdentity :: "ctx \<Rightarrow> Identity \<Rightarrow> ctx" where
  "WithIdentity ctx idn = WithValue ctx identityKey (IdentityPtr idn)"

definition FromContext :: "ctx \<Rightarrow> Identity option" where
  "FromContext ctx =
     (case Value ctx identityKey of Some (IdentityPtr idn) \<Rightarrow> Some idn | _ \<Rightarrow> None)"


section \<open>HTTP requests and middleware stages\<close>

text \<open>
  The fields of \<open>http.Request\<close> the gateway reads. \<open>Header\<close> maps a canonical header
  name to its values; \<open>Header.Get\<close> returns the first value or the empty string.
\<close>

record Request =
  Method :: string
  URL_Path :: string
  Header :: "(string \<times> string list) list"
  ContentLength :: int
  Body :: string
  RemoteAddr :: string
  Ctx :: ctx

definition Header_Get :: "Request \<Rightarrow> string \<Rightarrow> string" where
  "Header_Get r h = (case map_of (Header r) h of Some (v # vs) \<Rightarrow> v | _ \<Rightarrow> [])"

text \<open>
  Every middleware of the repository either answers itself with
  \<^verbatim>\<open>http.Error(w, msg, code); return\<close> or hands a request to
  \<^verbatim>\<open>next.ServeHTTP\<close> and returns what that does. A stage is therefore modelled by
  its decision: \<open>Respond code msg\<close> or \<open>Forward r\<close> (the request passed on).
\<close>

datatype stage_result = Respond int string | Forward Request

abbreviation StatusBadRequest :: int where "StatusBadRequest \<equiv> 400"
abbreviation StatusUnauthorized :: int where "StatusUnauthorized \<equiv> 401"
abbreviation StatusForbidden :: int where "StatusForbidden \<equiv> 403"
abbreviation StatusTooManyRequests :: int where "StatusTooManyRequests \<equiv> 429"
abbreviation StatusOK :: int where "StatusOK \<equiv> 200"


section \<open>RBAC evaluator (package rbac)\<close>

record Policy =
  Policy_Method :: string
  Policy_Path :: string
  Policy_Roles :: "string list"

text \<open>The inner loop of \<open>hasAllowedRole\<close>: is \<open>ur\<close> among the allowed roles?\<close>

fun role_among :: "string \<Rightarrow> string list \<Rightarrow> bool" where
  "role_among ur [] = False"
| "role_among ur (ar # ars) = (if ur = ar then True else role_among ur ars)"

fun hasAllowedRole :: "string list \<Rightarrow> string list \<Rightarrow> bool" where
  "hasAllowedRole [] allowedRoles = False"
| "hasAllowedRole (ur # urs) allowedRoles =
     (if role_among ur allowedRoles then True else hasAllowedRole urs allowedRoles)"

text \<open>The policy loop of \<open>RBACMiddleware\<close>, with the deny after the loop.\<close>

fun evaluate_policies :: "Policy list \<Rightarrow> Identity \<Rightarrow> Request \<Rightarrow> stage_result" where
  "evaluate_policies [] idn r = Respond StatusForbidden ''access denied''"
| "evaluate_policies (p # ps) idn r =
     (if Method r \<noteq> Policy_Method p then evaluate_policies ps idn r
      else if \<not> HasPrefix (URL_Path r) (Policy_Path p) then evaluate_policies ps idn r
      else if hasAllowedRole (Roles idn) (Policy_Roles p) then Forward r
      else evaluate_policies ps idn r)"

definition RBACMiddleware :: "Policy list \<Rightarrow> Request \<Rightarrow> stage_result" where
  "RBACMiddleware policies r =
     (if URL_Path r = ''/health'' then Forward r
      else case FromContext (Ctx r) of
             None \<Rightarrow> Respond StatusForbidden ''access denied''
           | Some idn \<Rightarrow> evaluate_policies policies idn r)"


section \<open>Policy engine (package policy)\<close>

record Rule =
  Rule_Method :: string
  Rule_Path :: string
  Rule_Roles :: "string list"

record PolicyFile =
  Policies :: "Rule list"

text \<open>A nil slice and an empty slice are both the empty list.\<close>

record Engine =
  policies :: "Rule list"
  loaded :: bool

datatype policy_error =
    ReadFileFailed
  | InvalidYAML
  | NoPolicies
  | PolicyError nat string

definition NewEngine :: Engine where
  "NewEngine = \<lparr>policies = [], loaded = False\<rparr>"

definition GetPolicies :: "Engine \<Rightarrow> Rule list" where
  "GetPolicies e = (if \<not> loaded e then [] else policies e)"

definition invalidate :: "Engine \<Rightarrow> Engine" where
  "invalidate e = e\<lparr>policies := [], loaded := False\<rparr>"

fun validate_roles :: "nat \<Rightarrow> string list \<Rightarrow> policy_error option" where
  "validate_roles i [] = None"
| "validate_roles i (r # rs) =
     (if TrimSpace r = [] then Some (PolicyError i ''role names must not be empty'')
      else validate_roles i rs)"

fun validate_rules :: "nat \<Rightarrow> Rule list \<Rightarrow> policy_error option" where
  "validate_rules i [] = None"
| "validate_rules i (p # ps) =
     (if TrimSpace (Rule_Method p) = [] then Some (PolicyError i ''method is required'')
      else if TrimSpace (Rule_Path p) = [] then Some (PolicyError i ''path is required'')
      else if \<not> HasPrefix (Rule_Path p) ''/'' then
        Some (PolicyError i (''path must start with '' @ [CHR 0x27, CHR ''/'', CHR 0x27]))
      else if length (Rule_Roles p) = 0 then
        Some (PolicyError i ''roles must not be empty'')
      else case validate_roles i (Rule_Roles p) of
             Some err \<Rightarrow> Some err
           | None \<Rightarrow> validate_rules (Suc i) ps)"

definition validatePolicyFile :: "PolicyFile \<Rightarrow> policy_error option" where
  "validatePolicyFile pf =
     (if length (Policies pf) = 0 then Some NoPolicies
      else validate_rules 0 (Policies pf))"

text \<open>
  The file system is a map from a path to the bytes \<open>os.ReadFile\<close> returns (\<open>None\<close>: the
  read fails). \<open>yaml.Unmarshal\<close> belongs to an external library and is a parameter:
  \<open>None\<close> is a parse error. \<open>LoadFromFile\<close> returns its error and the engine it leaves.
\<close>

type_synonym filesystem = "string \<Rightarrow> string option"

definition LoadFromFile ::
  "(string \<Rightarrow> PolicyFile option) \<Rightarrow> filesystem \<Rightarrow> Engine \<Rightarrow> string
     \<Rightarrow> policy_error option \<times> Engine" where
  "LoadFromFile unmarshal fs e path =
     (case fs path of
        None \<Rightarrow> (Some ReadFileFailed, invalidate e)
      | Some data \<Rightarrow>
          (case unmarshal data of
             None \<Rightarrow> (Some InvalidYAML, invalidate e)
           | Some pf \<Rightarrow>
               (case validatePolicyFile pf of
                  Some err \<Rightarrow> (Some err, invalidate e)
                | None \<Rightarrow> (None, e\<lparr>policies := Policies pf, loaded := True\<rparr>))))"


section \<open>Binary64 arithmetic\<close>

text \<open>
  Go's \<open>float64\<close> is IEEE 754 binary64. A value is a finite real number, an infinity or
  NaN. The two zeros are one value here: the limiter never divides by a variable and
  never reads a sign, so nothing it computes tells them apart.
\<close>

datatype float64 = Finite real | PosInf | NegInf | NaN

definition pow2 :: "int \<Rightarrow> real" where
  "pow2 e = (if 0 \<le> e then 2 ^ nat e else 1 / 2 ^ nat (- e))"

text \<open>
  The binary exponent of a positive number: how often it is halved until it is below 2,
  or doubled until it reaches 1, and never less than -1022, the exponent of the subnormal
  numbers. The bounds of the searches cover every number below the overflow threshold.
\<close>

fun halvings :: "nat \<Rightarrow> real \<Rightarrow> nat" where
  "halvings 0 x = 0"
| "halvings (Suc n) x = (if x < 2 then 0 else Suc (halvings n (x / 2)))"

fun doublings :: "nat \<Rightarrow> real \<Rightarrow> nat" where
  "doublings 0 x = 0"
| "doublings (Suc n) x = (if 1 \<le> x then 0 else Suc (doublings n (x * 2)))"

definition exponent64 :: "real \<Rightarrow> int" where
  "exponent64 x = (if 1 \<le> x then int (halvings 1100 x) else - int (doublings 1022 x))"

text \<open>The distance between neighbouring binary64 numbers around \<open>x\<close>: 53 significant bits.\<close>

definition ulp :: "real \<Rightarrow> real" where
  "ulp x = pow2 (exponent64 \<bar>x\<bar> - 52)"

definition round_half_even :: "real \<Rightarrow> int" where
  "round_half_even q =
     (if q - of_int \<lfloor>q\<rfloor> < 1 / 2 then \<lfloor>q\<rfloor>
      else if 1 / 2 < q - of_int \<lfloor>q\<rfloor> then \<lfloor>q\<rfloor> + 1
      else if even \<lfloor>q\<rfloor> then \<lfloor>q\<rfloor> else \<lfloor>q\<rfloor> + 1)"

text \<open>
  Rounding to the nearest binary64 number, ties to the even significand, and overflow to
  an infinity from \<open>2 ^ 1024\<close> on.
\<close>

definition rnd :: "real \<Rightarrow> real" where
  "rnd x = of_int (round_half_even (x / ulp x)) * ulp x"

definition round64 :: "real \<Rightarrow> float64" where
  "round64 x =
     (if 2 ^ 1024 \<le> \<bar>rnd x\<bar> then (if x < 0 then NegInf else PosInf) else Finite (rnd x))"

definition fround :: "float64 \<Rightarrow> float64" where
  "fround v = (case v of Finite x \<Rightarrow> round64 x | _ \<Rightarrow> v)"

text \<open>The exact sum, product and quotient of two values, before rounding.\<close>

fun xneg :: "float64 \<Rightarrow> float64" where
  "xneg (Finite x) = Finite (- x)"
| "xneg PosInf = NegInf"
| "xneg NegInf = PosInf"
| "xneg NaN = NaN"

fun xadd :: "float64 \<Rightarrow> float64 \<Rightarrow> float64" where
  "xadd (Finite x) (Finite y) = Finite (x + y)"
| "xadd NaN b = NaN"
| "xadd a NaN = NaN"
| "xadd PosInf NegInf = NaN"
| "xadd NegInf PosInf = NaN"
| "xadd PosInf b = PosInf"
| "xadd NegInf b = NegInf"
| "xadd a PosInf = PosInf"
| "xadd a NegInf = NegInf"

definition signed_inf :: "bool \<Rightarrow> float64" where
  "signed_inf negative = (if negative then NegInf else PosInf)"

fun xmul :: "float64 \<Rightarrow> float64 \<Rightarrow> float64" where
  "xmul (Finite x) (Finite y) = Finite (x * y)"
| "xmul NaN b = NaN"
| "xmul a NaN = NaN"
| "xmul (Finite x) PosInf = (if x = 0 then NaN else signed_inf (x < 0))"
| "xmul (Finite x) NegInf = (if x = 0 then NaN else signed_inf (0 < x))"
| "xmul PosInf (Finite y) = (if y = 0 then NaN else signed_inf (y < 0))"
| "xmul NegInf (Finite y) = (if y = 0 then NaN else signed_inf (0 < y))"
| "xmul PosInf PosInf = PosInf"
| "xmul NegInf NegInf = PosInf"
| "xmul PosInf NegInf = NegInf"
| "xmul NegInf PosInf = NegInf"

text \<open>A finite divisor is taken to be a positive zero when it is zero.\<close>

fun xdiv :: "float64 \<Rightarrow> float64 \<Rightarrow> float64" where
  "xdiv (Finite x) (Finite y) =
     (if y = 0 then (if x = 0 then NaN else signed_inf (x < 0)) else Finite (x / y))"
| "xdiv NaN b = NaN"
| "xdiv a NaN = NaN"
| "xdiv (Finite x) b = Finite 0"
| "xdiv PosInf (Finite y) = signed_inf (y < 0)"
| "xdiv NegInf (Finite y) = signed_inf (0 \<le> y)"
| "xdiv a b = NaN"

definition fadd :: "float64 \<Rightarrow> float64 \<Rightarrow> float64" where
  "fadd a b = fround (xadd a b)"

definition fsub :: "float64 \<Rightarrow> float64 \<Rightarrow> float64" where
  "fsub a b = fround (xadd a (xneg b))"

definition fmul :: "float64 \<Rightarrow> float64 \<Rightarrow> float64" where
  "fmul a b = fround (xmul a b)"

definition fdiv :: "float64 \<Rightarrow> float64 \<Rightarrow> float64" where
  "fdiv a b = fround (xdiv a b)"

text \<open>The comparisons: every comparison with NaN is false.\<close>

fun flt :: "float64 \<Rightarrow> float64 \<Rightarrow> bool" where
  "flt (Finite x) (Finite y) = (x < y)"
| "flt NaN b = False"
| "flt a NaN = False"
| "flt NegInf NegInf = False"
| "flt NegInf b = True"
| "flt a PosInf = (a \<noteq> PosInf)"
| "flt a b = False"

definition fgt :: "float64 \<Rightarrow> float64 \<Rightarrow> bool" where
  "fgt a b = flt b a"

text \<open>The conversion \<open>float64(i)\<close> of an integer.\<close>

definition float64_of_int :: "int \<Rightarrow> float64" where
  "float64_of_int i = round64 (of_int i)"

text \<open>
  The unit roundoff of binary64, and the numbers that are multiples of the least positive
  binary64 number (every binary64 number is one).
\<close>

definition u64 :: real where "u64 = 1 / 2 ^ 53"

definition grid :: "real \<Rightarrow> bool" where
  "grid x = (of_int \<lfloor>x * 2 ^ 1074\<rfloor> = x * 2 ^ 1074)"

section \<open>Rate limiter (package ratelimit)\<close>

subsection \<open>Time\<close>

text \<open>
  A \<open>time.Time\<close> read from a clock is an instant, counted in nanoseconds. A
  \<open>time.Duration\<close> is an \<open>int64\<close> count of nanoseconds, and \<open>Time.Sub\<close> saturates at
  the least and the greatest Duration. \<open>Duration.Seconds\<close> is
  \<^verbatim>\<open>float64(d / Second) + float64(d % Second) / 1e9\<close>, with Go's truncating division;
  the two conversions, the quotient and the sum each round.
\<close>

type_synonym Time = int

definition minDuration :: int where "minDuration = - (2 ^ 63)"
definition maxDuration :: int where "maxDuration = 2 ^ 63 - 1"

definition Sub :: "Time \<Rightarrow> Time \<Rightarrow> int" where
  "Sub t u =
     (let d = t - u
      in if d > maxDuration then maxDuration else if d < minDuration then minDuration else d)"

definition quo :: "int \<Rightarrow> int \<Rightarrow> int" where
  "quo a b = sgn a * sgn b * (\<bar>a\<bar> div \<bar>b\<bar>)"

definition rem :: "int \<Rightarrow> int \<Rightarrow> int" where
  "rem a b = a - b * quo a b"

definition Seconds :: "int \<Rightarrow> float64" where
  "Seconds d =
     fadd (float64_of_int (quo d 1000000000))
          (fdiv (float64_of_int (rem d 1000000000)) (Finite 1000000000))"

subsection \<open>Token bucket\<close>

text \<open>
  The tokens and the refill rate are \<open>float64\<close>. In \<open>allow\<close> the product, the sum and the
  difference each round, as the code compiled for amd64 computes them (the compiler does
  not fuse the product and the sum there).
\<close>

record bucket =
  capacity :: int
  tokens :: float64
  refillPS :: float64
  last_time :: Time

definition newBucket :: "int \<Rightarrow> int \<Rightarrow> Time \<Rightarrow> bucket" where
  "newBucket cap refill now =
     \<lparr>capacity = cap, tokens = float64_of_int cap, refillPS = float64_of_int refill,
      last_time = now\<rparr>"

text \<open>\<open>allow\<close> returns its answer and the bucket as the call leaves it.\<close>

definition allow :: "bucket \<Rightarrow> Time \<Rightarrow> bool \<times> bucket" where
  "allow b now =
     (let elapsed = Seconds (Sub now (last_time b));
          b1 = b\<lparr>last_time := now\<rparr>;
          b2 = b1\<lparr>tokens := fadd (tokens b1) (fmul elapsed (refillPS b1))\<rparr>;
          b3 = (if fgt (tokens b2) (float64_of_int (capacity b2))
                then b2\<lparr>tokens := float64_of_int (capacity b2)\<rparr> else b2)
      in if flt (tokens b3) (Finite 1) then (False, b3)
         else (True, b3\<lparr>tokens := fsub (tokens b3) (Finite 1)\<rparr>))"

text \<open>
  The answers of one bucket to a sequence of requests, and the number of requests it
  allows among those whose time satisfies \<open>P\<close>.
\<close>

fun allow_all :: "bucket \<Rightarrow> Time list \<Rightarrow> bool list" where
  "allow_all b [] = []"
| "allow_all b (t # ts) = fst (allow b t) # allow_all (snd (allow b t)) ts"

fun allowed_count :: "(Time \<Rightarrow> bool) \<Rightarrow> bucket \<Rightarrow> Time list \<Rightarrow> nat" where
  "allowed_count P b [] = 0"
| "allowed_count P b (t # ts) =
     (if fst (allow b t) \<and> P t then 1 else 0) + allowed_count P (snd (allow b t)) ts"

text \<open>A window of \<open>W\<close> seconds that starts at the instant \<open>lo\<close>.\<close>

definition in_window :: "Time \<Rightarrow> real \<Rightarrow> Time \<Rightarrow> bool" where
  "in_window lo W t = (lo \<le> t \<and> real_of_int (t - lo) / 1000000000 \<le> W)"


definition sec :: "Time \<Rightarrow> real" where
  "sec t = real_of_int t / 1000000000"

subsection \<open>Limiter\<close>

abbreviation IPBucketCapacity :: int where "IPBucketCapacity \<equiv> 20"
abbreviation IPRefillPerSecond :: int where "IPRefillPerSecond \<equiv> 5"
abbreviation UserBucketCapacity :: int where "UserBucketCapacity \<equiv> 40"
abbreviation UserRefillPerSecond :: int where "UserRefillPerSecond \<equiv> 10"
abbreviation FallbackCapacity :: int where "FallbackCapacity \<equiv> 2"
abbreviation FallbackRefillPS :: int where "FallbackRefillPS \<equiv> 1"

text \<open>
  A Go map from strings to bucket pointers is an association list with distinct keys;
  \<open>None\<close> is the nil map, which can be read (every key is absent) but panics when
  written. A bucket is reachable from one map entry only, so the mutation through the
  pointer is a store into the map.
\<close>

type_synonym buckets = "(string \<times> bucket) list option"

record Limiter =
  ipBuckets :: buckets
  userBuckets :: buckets

definition NewLimiter :: Limiter where
  "NewLimiter = \<lparr>ipBuckets = Some [], userBuckets = Some []\<rparr>"

definition lookup_bucket :: "buckets \<Rightarrow> string \<Rightarrow> bucket option" where
  "lookup_bucket m k = (case m of None \<Rightarrow> None | Some al \<Rightarrow> map_of al k)"

definition map_len :: "buckets \<Rightarrow> nat" where
  "map_len m = (case m of None \<Rightarrow> 0 | Some al \<Rightarrow> length al)"

definition Stats :: "Limiter \<Rightarrow> nat \<times> nat" where
  "Stats l = (map_len (ipBuckets l), map_len (userBuckets l))"

text \<open>\<open>net.SplitHostPort\<close> of the Go standard library; \<open>None\<close> is its error.\<close>

fun IndexByte :: "string \<Rightarrow> char \<Rightarrow> nat option" where
  "IndexByte [] c = None"
| "IndexByte (x # xs) c = (if x = c then Some 0 else map_option Suc (IndexByte xs c))"

definition LastIndexByte :: "string \<Rightarrow> char \<Rightarrow> nat option" where
  "LastIndexByte s c = map_option (\<lambda>k. length s - 1 - k) (IndexByte (rev s) c)"

definition SplitHostPort :: "string \<Rightarrow> (string \<times> string) option" where
  "SplitHostPort hostport =
     (case LastIndexByte hostport CHR '':'' of
        None \<Rightarrow> None
      | Some i \<Rightarrow>
          if take 1 hostport = ''[''
          then (case IndexByte hostport CHR '']'' of
                  None \<Rightarrow> None
                | Some e \<Rightarrow>
                    if e + 1 = length hostport then None
                    else if e + 1 = i then
                      (if IndexByte (drop 1 hostport) CHR ''['' \<noteq> None then None
                       else if IndexByte (drop (e + 1) hostport) CHR '']'' \<noteq> None then None
                       else Some (take (e - 1) (drop 1 hostport), drop (i + 1) hostport))
                    else None)
          else (if IndexByte (take i hostport) CHR '':'' \<noteq> None then None
                else if IndexByte hostport CHR ''['' \<noteq> None then None
                else if IndexByte hostport CHR '']'' \<noteq> None then None
                else Some (take i hostport, drop (i + 1) hostport)))"

definition extractIP :: "string \<Rightarrow> string" where
  "extractIP remoteAddr = (case SplitHostPort remoteAddr of None \<Rightarrow> [] | Some (host, port) \<Rightarrow> host)"

text \<open>
  The state of the package: the limiter and the package-level \<open>fallbackBucket\<close>. The
  clock readings of one call are \<open>clock_now\<close> (\<open>l.clock.Now()\<close>) and \<open>wall_now\<close>
  (\<open>time.Now()\<close> in \<open>fallbackAllow\<close>).
\<close>

record limiter_state =
  limiter :: Limiter
  fallbackBucket :: bucket

definition fallbackAllow :: "limiter_state \<Rightarrow> Time \<Rightarrow> bool \<times> limiter_state" where
  "fallbackAllow st wall_now =
     (fst (allow (fallbackBucket st) wall_now),
      st\<lparr>fallbackBucket := snd (allow (fallbackBucket st) wall_now)\<rparr>)"

text \<open>
  The optional user bucket of \<open>safeAllow\<close>, entered after the IP bucket has allowed the
  request. Storing a new bucket into a nil map panics; the deferred handler turns the
  panic into the fallback decision.
\<close>

definition user_allow :: "limiter_state \<Rightarrow> Time \<Rightarrow> Time \<Rightarrow> string \<Rightarrow> bool \<times> limiter_state" where
  "user_allow st now wall_now uid =
     (case lookup_bucket (userBuckets (limiter st)) uid of
        None \<Rightarrow>
          (case userBuckets (limiter st) of
             None \<Rightarrow> fallbackAllow st wall_now
           | Some al \<Rightarrow>
               let b = newBucket UserBucketCapacity UserRefillPerSecond now
               in (fst (allow b now),
                   st\<lparr>limiter := (limiter st)
                        \<lparr>userBuckets := Some (AList.update uid (snd (allow b now)) al)\<rparr>\<rparr>))
      | Some b \<Rightarrow>
          (fst (allow b now),
           st\<lparr>limiter := (limiter st)
                \<lparr>userBuckets := map_option (AList.update uid (snd (allow b now)))
                                  (userBuckets (limiter st))\<rparr>\<rparr>))"

definition ip_allow :: "limiter_state \<Rightarrow> Time \<Rightarrow> string \<Rightarrow> (bool \<times> limiter_state) option" where
  "ip_allow st now ip =
     (case lookup_bucket (ipBuckets (limiter st)) ip of
        None \<Rightarrow>
          (case ipBuckets (limiter st) of
             None \<Rightarrow> None
           | Some al \<Rightarrow>
               let b = newBucket IPBucketCapacity IPRefillPerSecond now
               in Some (fst (allow b now),
                        st\<lparr>limiter := (limiter st)
                             \<lparr>ipBuckets := Some (AList.update ip (snd (allow b now)) al)\<rparr>\<rparr>))
      | Some b \<Rightarrow>
          Some (fst (allow b now),
                st\<lparr>limiter := (limiter st)
                     \<lparr>ipBuckets := map_option (AList.update ip (snd (allow b now)))
                                     (ipBuckets (limiter st))\<rparr>\<rparr>))"

definition safeAllow ::
  "limiter_state \<Rightarrow> Time \<Rightarrow> Time \<Rightarrow> ctx \<Rightarrow> string \<Rightarrow> bool \<times> limiter_state" where
  "safeAllow st now wall_now c remoteAddr =
     (let ip = extractIP remoteAddr
      in if ip = [] then fallbackAllow st wall_now
         else case ip_allow st now ip of
                None \<Rightarrow> fallbackAllow st wall_now
              | Some (ok, st1) \<Rightarrow>
                  if \<not> ok then (False, st1)
                  else (case Value c UserIDKey of
                          Some (StringValue uid) \<Rightarrow>
                            if uid \<noteq> [] then user_allow st1 now wall_now uid else (True, st1)
                        | _ \<Rightarrow> (True, st1)))"

definition Limiter_Middleware ::
  "limiter_state \<Rightarrow> Time \<Rightarrow> Time \<Rightarrow> Request \<Rightarrow> stage_result \<times> limiter_state" where
  "Limiter_Middleware st now wall_now r =
     (let res = safeAllow st now wall_now (Ctx r) (RemoteAddr r)
      in if \<not> fst res then (Respond StatusTooManyRequests ''rate limit exceeded'', snd res)
         else (Forward r, snd res))"


section \<open>Audit log (package audit)\<close>

subsection \<open>SHA-256 and hexadecimal encoding\<close>

text \<open>
  \<open>crypto/sha256\<close> and \<open>encoding/hex\<close> of the Go standard library: SHA-256 as FIPS 180-4
  defines it, on 32-bit words, and the lower-case hexadecimal encoding of a byte string.
  In \<open>schedule\<close> the message words are kept most recent first.
\<close>

type_synonym w32 = "32 word"

definition rotr :: "nat \<Rightarrow> w32 \<Rightarrow> w32" where
  "rotr n x = drop_bit n x OR push_bit (32 - n) x"

definition Ch :: "w32 \<Rightarrow> w32 \<Rightarrow> w32 \<Rightarrow> w32" where
  "Ch x y z = (x AND y) XOR (NOT x AND z)"

definition Maj :: "w32 \<Rightarrow> w32 \<Rightarrow> w32 \<Rightarrow> w32" where
  "Maj x y z = (x AND y) XOR (x AND z) XOR (y AND z)"

definition bsig0 :: "w32 \<Rightarrow> w32" where
  "bsig0 x = rotr 2 x XOR rotr 13 x XOR rotr 22 x"

definition bsig1 :: "w32 \<Rightarrow> w32" where
  "bsig1 x = rotr 6 x XOR rotr 11 x XOR rotr 25 x"

definition ssig0 :: "w32 \<Rightarrow> w32" where
  "ssig0 x = rotr 7 x XOR rotr 18 x XOR drop_bit 3 x"

definition ssig1 :: "w32 \<Rightarrow> w32" where
  "ssig1 x = rotr 17 x XOR rotr 19 x XOR drop_bit 10 x"

definition K256 :: "w32 list" where
  "K256 = [
  1116352408, 1899447441, 3049323471, 3921009573, 961987163, 1508970993, 2453635748, 2870763221,
  3624381080, 310598401, 607225278, 1426881987, 1925078388, 2162078206, 2614888103, 3248222580,
  3835390401, 4022224774, 264347078, 604807628, 770255983, 1249150122, 1555081692, 1996064986,
  2554220882, 2821834349, 2952996808, 3210313671, 3336571891, 3584528711, 113926993, 338241895,
  666307205, 773529912, 1294757372, 1396182291, 1695183700, 1986661051, 2177026350, 2456956037,
  2730485921, 2820302411, 3259730800, 3345764771, 3516065817, 3600352804, 4094571909, 275423344,
  430227734, 506948616, 659060556, 883997877, 958139571, 1322822218, 1537002063, 1747873779,
  1955562222, 2024104815, 2227730452, 2361852424, 2428436474, 2756734187, 3204031479, 3329325298]"

type_synonym sha_state = "w32 \<times> w32 \<times> w32 \<times> w32 \<times> w32 \<times> w32 \<times> w32 \<times> w32"

definition H0 :: sha_state where
  "H0 = (1779033703, 3144134277, 1013904242, 2773480762,
         1359893119, 2600822924, 528734635, 1541459225)"

fun schedule :: "nat \<Rightarrow> w32 list \<Rightarrow> w32 list" where
  "schedule 0 ws = ws"
| "schedule (Suc n) ws =
     schedule n ((ssig1 (ws ! 1) + ws ! 6 + ssig0 (ws ! 14) + ws ! 15) # ws)"

definition round_step :: "sha_state \<Rightarrow> w32 \<times> w32 \<Rightarrow> sha_state" where
  "round_step st kw =
     (case st of (a, b, c, d, e, f, g, h) \<Rightarrow>
        let t1 = h + bsig1 e + Ch e f g + fst kw + snd kw;
            t2 = bsig0 a + Maj a b c
        in (t1 + t2, a, b, c, d + t1, e, f, g))"

definition add_state :: "sha_state \<Rightarrow> sha_state \<Rightarrow> sha_state" where
  "add_state s t =
     (case s of (a, b, c, d, e, f, g, h) \<Rightarrow>
      case t of (a', b', c', d', e', f', g', h') \<Rightarrow>
        (a + a', b + b', c + c', d + d', e + e', f + f', g + g', h + h'))"

definition be32 :: "string \<Rightarrow> w32" where
  "be32 bs = foldl (\<lambda>acc c. push_bit 8 acc OR of_nat (of_char c)) 0 bs"

fun words_of :: "nat \<Rightarrow> string \<Rightarrow> w32 list" where
  "words_of 0 bs = []"
| "words_of (Suc n) bs = be32 (take 4 bs) # words_of n (drop 4 bs)"

definition compress :: "sha_state \<Rightarrow> string \<Rightarrow> sha_state" where
  "compress hs blk =
     add_state hs (foldl round_step hs (zip K256 (rev (schedule 48 (rev (words_of 16 blk))))))"

fun blocks :: "nat \<Rightarrow> sha_state \<Rightarrow> string \<Rightarrow> sha_state" where
  "blocks 0 hs bs = hs"
| "blocks (Suc n) hs bs = blocks n (compress hs (take 64 bs)) (drop 64 bs)"

definition be_bytes :: "nat \<Rightarrow> nat \<Rightarrow> string" where
  "be_bytes n v = map (\<lambda>i. char_of (drop_bit (8 * (n - 1 - i)) v)) [0..<n]"

definition pad :: "string \<Rightarrow> string" where
  "pad m = m @ [CHR 0x80] @ replicate ((119 - length m mod 64) mod 64) (CHR 0x00)
             @ be_bytes 8 (8 * length m)"

definition sha256 :: "string \<Rightarrow> string" where
  "sha256 m =
     (case blocks (length (pad m) div 64) H0 (pad m) of (a, b, c, d, e, f, g, h) \<Rightarrow>
        concat (map (\<lambda>w. be_bytes 4 (unat w)) [a, b, c, d, e, f, g, h]))"

definition hexdigit :: "nat \<Rightarrow> char" where
  "hexdigit n = ''0123456789abcdef'' ! n"

definition EncodeToString :: "string \<Rightarrow> string" where
  "EncodeToString bs =
     concat (map (\<lambda>c. [hexdigit (of_char c div 16), hexdigit (of_char c mod 16)]) bs)"

subsection \<open>Time stamps\<close>

text \<open>
  A \<open>time.Time\<close> value of an entry: the instant in nanoseconds since the Unix epoch and
  the offset of its zone in seconds east of UTC. \<open>Format_RFC3339Nano\<close> is
  \<open>t.Format(time.RFC3339Nano)\<close>, the layout \<^verbatim>\<open>2006-01-02T15:04:05.999999999Z07:00\<close>:
  the civil date and time of day in the zone, the fraction of a second without its
  trailing zeros (nothing when it is zero), and \<open>Z\<close> or the offset in hours and minutes.
\<close>

record time_Time =
  unix_nanos :: int
  zone_offset :: int

definition UTC :: "time_Time \<Rightarrow> time_Time" where
  "UTC t = t\<lparr>zone_offset := 0\<rparr>"

definition digit :: "nat \<Rightarrow> char" where
  "digit d = char_of (48 + d)"

fun decimal :: "nat \<Rightarrow> string" where
  "decimal n = (if n < 10 then [digit n] else decimal (n div 10) @ [digit (n mod 10)])"

declare decimal.simps [simp del]

definition appendInt :: "int \<Rightarrow> nat \<Rightarrow> string" where
  "appendInt x width =
     (let ds = decimal (nat \<bar>x\<bar>)
      in (if x < 0 then ''-'' else []) @ replicate (width - length ds) (CHR ''0'') @ ds)"

text \<open>
  The civil date of a day number (days since 1 January 1970) in the proleptic Gregorian
  calendar, computed from the day of the 400-year era as \<open>time.Time.Date\<close> does.
\<close>

definition year_of_era :: "int \<Rightarrow> int" where
  "year_of_era doe = (doe - doe div 1460 + doe div 36524 - doe div 146096) div 365"

definition day_of_year :: "int \<Rightarrow> int" where
  "day_of_year doe =
     doe - (365 * year_of_era doe + year_of_era doe div 4 - year_of_era doe div 100)"

definition month_index :: "int \<Rightarrow> int" where
  "month_index doe = (5 * day_of_year doe + 2) div 153"

definition civil_month :: "int \<Rightarrow> int" where
  "civil_month doe = (if month_index doe < 10 then month_index doe + 3 else month_index doe - 9)"

definition civil_day :: "int \<Rightarrow> int" where
  "civil_day doe = day_of_year doe - (153 * month_index doe + 2) div 5 + 1"

definition civil_date :: "int \<Rightarrow> int \<times> int \<times> int" where
  "civil_date days =
     (year_of_era ((days + 719468) mod 146097) + (days + 719468) div 146097 * 400
        + (if civil_month ((days + 719468) mod 146097) \<le> 2 then 1 else 0),
      civil_month ((days + 719468) mod 146097),
      civil_day ((days + 719468) mod 146097))"

definition Year :: "time_Time \<Rightarrow> int" where
  "Year t = fst (civil_date ((unix_nanos t div 1000000000 + zone_offset t) div 86400))"

definition fraction :: "int \<Rightarrow> string" where
  "fraction nsec =
     (if nsec = 0 then []
      else ''.'' @ rev (dropWhile (\<lambda>c. c = CHR ''0'') (rev (appendInt nsec 9))))"

definition zone_suffix :: "int \<Rightarrow> string" where
  "zone_suffix offset =
     (if offset = 0 then ''Z''
      else let zone = \<bar>offset\<bar> div 60
           in (if offset < 0 then ''-'' else ''+'')
              @ appendInt (zone div 60) 2 @ '':'' @ appendInt (zone mod 60) 2)"

definition Format_RFC3339Nano :: "time_Time \<Rightarrow> string" where
  "Format_RFC3339Nano t =
     (let secs = unix_nanos t div 1000000000 + zone_offset t;
          nsec = unix_nanos t mod 1000000000;
          sod = secs mod 86400
      in case civil_date (secs div 86400) of (y, m, d) \<Rightarrow>
           appendInt y 4 @ ''-'' @ appendInt m 2 @ ''-'' @ appendInt d 2 @ ''T''
           @ appendInt (sod div 3600) 2 @ '':'' @ appendInt (sod mod 3600 div 60) 2 @ '':''
           @ appendInt (sod mod 60) 2 @ fraction nsec @ zone_suffix (zone_offset t))"

subsection \<open>Entries and the logger\<close>

record Entry =
  Timestamp :: time_Time
  Entry_Method :: string
  Entry_Path :: string
  Decision :: string
  Reason :: string
  PrevHash :: string
  Hash :: string

definition computeHash :: "Entry \<Rightarrow> string" where
  "computeHash e =
     EncodeToString (sha256 (Format_RFC3339Nano (Timestamp e) @ Entry_Method e @ Entry_Path e
        @ Decision e @ Reason e @ PrevHash e))"

text \<open>
  The audit file is a sequence of lines. \<open>encoding/json\<close> is not modelled on bytes: a line
  is represented by what \<open>json.Unmarshal\<close> makes of it, the entry it decodes to (\<open>JSON e\<close>)
  or its failure (\<open>Garbage\<close>, with the text of the line). The line \<open>json.Marshal\<close> produces
  for an entry is taken to decode to that entry. \<open>Marshal\<close> fails on a time stamp that
  RFC 3339 cannot express: a year outside 0 to 9999 or a zone offset of 24 hours or more.
\<close>

datatype log_line = JSON Entry | Garbage string

definition json_Marshal :: "Entry \<Rightarrow> log_line option" where
  "json_Marshal e =
     (if Year (Timestamp e) < 0 \<or> 9999 < Year (Timestamp e) then None
      else if zone_offset (Timestamp e) \<noteq> 0 \<and> 24 \<le> \<bar>zone_offset (Timestamp e)\<bar> div 60 div 60
      then None
      else Some (JSON e))"


text \<open>
  The logger holds the lines of its file and \<open>lastHash\<close>. \<open>NewLogger\<close> opens the file for
  appending, whatever it holds already, and starts with the empty \<open>lastHash\<close>.
\<close>

record Logger =
  file_lines :: "log_line list"
  lastHash :: string

definition NewLogger :: "log_line list \<Rightarrow> Logger" where
  "NewLogger content = \<lparr>file_lines = content, lastHash = []\<rparr>"

text \<open>
  The entry \<open>Log\<close> builds: \<open>now\<close> is what \<open>time.Now()\<close> returns. Then \<open>Log\<close> itself;
  \<open>write_ok\<close> tells whether \<open>file.Write\<close> succeeds (a failed write appends nothing).
\<close>

definition new_entry ::
  "Logger \<Rightarrow> time_Time \<Rightarrow> string \<Rightarrow> string \<Rightarrow> string \<Rightarrow> string \<Rightarrow> Entry" where
  "new_entry l now method path decision reason =
     (let entry = \<lparr>Timestamp = UTC now, Entry_Method = method, Entry_Path = path,
                    Decision = decision, Reason = reason, PrevHash = lastHash l, Hash = []\<rparr>
      in entry\<lparr>Hash := computeHash entry\<rparr>)"

definition Log ::
  "Logger \<Rightarrow> time_Time \<Rightarrow> bool \<Rightarrow> string \<Rightarrow> string \<Rightarrow> string \<Rightarrow> string \<Rightarrow> Logger" where
  "Log l now write_ok method path decision reason =
     (let entry = new_entry l now method path decision reason
      in case json_Marshal entry of
           None \<Rightarrow> l
         | Some data \<Rightarrow>
             if \<not> write_ok then l
             else l\<lparr>file_lines := file_lines l @ [data], lastHash := Hash entry\<rparr>)"




subsection \<open>Verifier\<close>






section \<open>Request validation (package middleware)\<close>

abbreviation MaxRequestBodyBytes :: nat where "MaxRequestBodyBytes \<equiv> 1048576"

definition AllowedContentTypes :: "string list" where
  "AllowedContentTypes = [''application/json'', ''text/plain'']"

definition RequiredHeaders :: "string list" where
  "RequiredHeaders = [''User-Agent'']"

fun allowed_prefix :: "string \<Rightarrow> string list \<Rightarrow> bool" where
  "allowed_prefix ct [] = False"
| "allowed_prefix ct (allowed # rest) =
     (if HasPrefix ct allowed then True else allowed_prefix ct rest)"

definition isAllowedContentType :: "string \<Rightarrow> bool" where
  "isAllowedContentType ct = (if ct = [] then False else allowed_prefix ct AllowedContentTypes)"

text \<open>The first required header that is missing or blank, if any.\<close>

fun missing_header :: "Request \<Rightarrow> string list \<Rightarrow> string option" where
  "missing_header r [] = None"
| "missing_header r (h # hs) =
     (if TrimSpace (Header_Get r h) = [] then Some h else missing_header r hs)"

text \<open>
  \<open>Body\<close> holds the bytes the client sends; reading through \<open>http.MaxBytesReader\<close> fails
  when they are more than the cap. A read that fails for another reason (a broken
  connection) is not modelled. The buffered body is handed on unchanged.
\<close>

definition ValidateRequestMiddleware :: "Request \<Rightarrow> stage_result" where
  "ValidateRequestMiddleware r =
     (case missing_header r RequiredHeaders of
        Some h \<Rightarrow> Respond StatusBadRequest (''missing required header: '' @ h)
      | None \<Rightarrow>
          if ContentLength r > 0 \<and> \<not> isAllowedContentType (Header_Get r ''Content-Type'')
          then Respond StatusBadRequest ''invalid Content-Type''
          else if length (Body r) > MaxRequestBodyBytes
          then Respond StatusBadRequest ''failed to read request body''
          else Forward r)"


section \<open>API key authentication (package auth, apikey.go)\<close>

record APIKey =
  ID :: string
  Key :: string
  Key_Roles :: "string list"

text \<open>A \<open>MapStore\<close>: the raw key string mapped to its record.\<close>

type_synonym MapStore = "(string \<times> APIKey) list"

definition Lookup :: "MapStore \<Rightarrow> string \<Rightarrow> APIKey option" where
  "Lookup store k = map_of store k"

definition NewDemoStore :: MapStore where
  "NewDemoStore =
     [(''deef0admin0000000000000000000000000000000000000000000000000000'',
       \<lparr>ID = ''demo-admin'',
        Key = ''deef0admin0000000000000000000000000000000000000000000000000000'',
        Key_Roles = [''admin'']\<rparr>),
      (''deef0us3r0000000000000000000000000000000000000000000000000000'',
       \<lparr>ID = ''demo-user'',
        Key = ''deef0us3r0000000000000000000000000000000000000000000000000000'',
        Key_Roles = [''user'']\<rparr>)]"

text \<open>\<open>subtle.ConstantTimeCompare\<close> returns 1 exactly when the two byte strings are equal.\<close>

definition APIKeyMiddleware :: "MapStore \<Rightarrow> Request \<Rightarrow> stage_result" where
  "APIKeyMiddleware store r =
     (if URL_Path r = ''/health'' then Forward r
      else if Header_Get r ''X-API-Key'' = [] then Respond StatusUnauthorized ''missing API key''
      else case Lookup store (Header_Get r ''X-API-Key'') of
             None \<Rightarrow> Respond StatusUnauthorized ''invalid API key''
           | Some record \<Rightarrow>
               if Header_Get r ''X-API-Key'' \<noteq> Key record
               then Respond StatusUnauthorized ''invalid API key''
               else Forward (r\<lparr>Ctx := WithIdentity (Ctx r)
                      \<lparr>Type = AuthAPIKey, Subject = ID record, Roles = Key_Roles record,
                       Issuer = [], Audience = []\<rparr>\<rparr>))"


section \<open>Statistics (package dashboard)\<close>

text \<open>The counters are \<open>atomic.Int64\<close>: adding 1 wraps around at 64 bits.\<close>

record StatsCollector =
  allowCount :: "64 word"
  denyCount :: "64 word"
  startedAt :: Time

definition NewStatsCollector :: "Time \<Rightarrow> StatsCollector" where
  "NewStatsCollector now = \<lparr>allowCount = 0, denyCount = 0, startedAt = now\<rparr>"

definition IncrementAllow :: "StatsCollector \<Rightarrow> StatsCollector" where
  "IncrementAllow s = s\<lparr>allowCount := allowCount s + 1\<rparr>"

definition IncrementDeny :: "StatsCollector \<Rightarrow> StatsCollector" where
  "IncrementDeny s = s\<lparr>denyCount := denyCount s + 1\<rparr>"


section \<open>The gateway (package main)\<close>

text \<open>\<open>http.StatusText\<close> of the Go standard library: the reason phrase, empty when unknown.\<close>

definition status_texts :: "(int \<times> string) list" where
  "status_texts =
    [(100, ''Continue''),
     (101, ''Switching Protocols''),
     (102, ''Processing''),
     (103, ''Early Hints''),
     (200, ''OK''),
     (201, ''Created''),
     (202, ''Accepted''),
     (203, ''Non-Authoritative Information''),
     (204, ''No Content''),
     (205, ''Reset Content''),
     (206, ''Partial Content''),
     (207, ''Multi-Status''),
     (208, ''Already Reported''),
     (226, ''IM Used''),
     (300, ''Multiple Choices''),
     (301, ''Moved Permanently''),
     (302, ''Found''),
     (303, ''See Other''),
     (304, ''Not Modified''),
     (305, ''Use Proxy''),
     (307, ''Temporary Redirect''),
     (308, ''Permanent Redirect''),
     (400, ''Bad Request''),
     (401, ''Unauthorized''),
     (402, ''Payment Required''),
     (403, ''Forbidden''),
     (404, ''Not Found''),
     (405, ''Method Not Allowed''),
     (406, ''Not Acceptable''),
     (407, ''Proxy Authentication Required''),
     (408, ''Request Timeout''),
     (409, ''Conflict''),
     (410, ''Gone''),
     (411, ''Length Required''),
     (412, ''Precondition Failed''),
     (413, ''Request Entity Too Large''),
     (414, ''Request URI Too Long''),
     (415, ''Unsupported Media Type''),
     (416, ''Requested Range Not Satisfiable''),
     (417, ''Expectation Failed''),
     (418, ''I'' @ [CHR 0x27] @ ''m a teapot''),
     (421, ''Misdirected Request''),
     (422, ''Unprocessable Entity''),
     (423, ''Locked''),
     (424, ''Failed Dependency''),
     (425, ''Too Early''),
     (426, ''Upgrade Required''),
     (428, ''Precondition Required''),
     (429, ''Too Many Requests''),
     (431, ''Request Header Fields Too Large''),
     (451, ''Unavailable For Legal Reasons''),
     (500, ''Internal Server Error''),
     (501, ''Not Implemented''),
     (502, ''Bad Gateway''),
     (503, ''Service Unavailable''),
     (504, ''Gateway Timeout''),
     (505, ''HTTP Version Not Supported''),
     (506, ''Variant Also Negotiates''),
     (507, ''Insufficient Storage''),
     (508, ''Loop Detected''),
     (510, ''Not Extended''),
     (511, ''Network Authentication Required'')]"

definition StatusText :: "int \<Rightarrow> string" where
  "StatusText code = (case map_of status_texts code of Some t \<Rightarrow> t | None \<Rightarrow> [])"

text \<open>
  The state the handlers of \<open>main\<close> share: the audit logger, the policy engine with
  the watcher's \<open>lastMod\<close>, the rule set the RBAC middleware was built with, the limiter
  with the fallback bucket, the key store and the statistics.
\<close>

record Gateway =
  auditLogger :: Logger
  policyEngine :: Engine
  lastMod :: Time
  rbacPolicies :: "Policy list"
  limiter_st :: limiter_state
  demoStore :: MapStore
  stats :: StatsCollector

text \<open>
  What one request meets outside the gateway: the clock readings of the limiter, the
  clock reading and the fate of the write in \<open>Log\<close>, the status the reverse proxy
  writes (the upstream's, or 502), and the status of a handler outside the secured chain.
\<close>

record Env =
  clock_now :: Time
  wall_now :: Time
  log_now :: time_Time
  write_ok :: bool
  upstream_status :: int
  aux_status :: int

text \<open>
  A handler returns the codes it passes to \<open>WriteHeader\<close>, in order, and the state it
  leaves. \<open>http.Error\<close> and the reverse proxy call \<open>WriteHeader\<close> once.
\<close>

type_synonym handler = "Env \<Rightarrow> Gateway \<Rightarrow> Request \<Rightarrow> int list \<times> Gateway"

definition securedChain :: handler where
  "securedChain env g r =
     (case ValidateRequestMiddleware r of
        Respond c m \<Rightarrow> ([c], g)
      | Forward r1 \<Rightarrow>
     (case APIKeyMiddleware (demoStore g) r1 of
        Respond c m \<Rightarrow> ([c], g)
      | Forward r2 \<Rightarrow>
     (case RBACMiddleware (rbacPolicies g) r2 of
        Respond c m \<Rightarrow> ([c], g)
      | Forward r3 \<Rightarrow>
     (case fst (Limiter_Middleware (limiter_st g) (clock_now env) (wall_now env) r3) of
        Respond c m \<Rightarrow>
          ([c], g\<lparr>limiter_st :=
                   snd (Limiter_Middleware (limiter_st g) (clock_now env) (wall_now env) r3)\<rparr>)
      | Forward r4 \<Rightarrow>
          ([upstream_status env],
           g\<lparr>limiter_st :=
                snd (Limiter_Middleware (limiter_st g) (clock_now env) (wall_now env) r3)\<rparr>)))))"

text \<open>The \<open>responseRecorder\<close>: it starts at 200 and keeps the code of every \<open>WriteHeader\<close>.\<close>

record responseRecorder =
  status :: int

definition WriteHeader :: "responseRecorder \<Rightarrow> int \<Rightarrow> responseRecorder" where
  "WriteHeader rr code = rr\<lparr>status := code\<rparr>"

definition recorded_status :: "int list \<Rightarrow> int" where
  "recorded_status codes = status (foldl WriteHeader \<lparr>status = StatusOK\<rparr> codes)"

definition audit_decision :: "int \<Rightarrow> string" where
  "audit_decision st = (if st \<ge> 400 then ''DENY'' else ''ALLOW'')"

definition audit_reason :: "int \<Rightarrow> string" where
  "audit_reason st = (if st \<ge> 400 then StatusText st else ''all checks passed'')"

definition auditMiddleware :: "handler \<Rightarrow> handler" where
  "auditMiddleware next_handler env g r =
     (let res = next_handler env g r;
          st = recorded_status (fst res);
          g1 = snd res
      in (fst res,
          g1\<lparr>stats := (if audit_decision st = ''ALLOW'' then IncrementAllow (stats g1)
                        else IncrementDeny (stats g1)),
             auditLogger := Log (auditLogger g1) (log_now env) (write_ok env) (Method r)
                              (URL_Path r) (audit_decision st) (audit_reason st)\<rparr>))"

definition finalHandler :: handler where
  "finalHandler = auditMiddleware securedChain"

text \<open>
  The root handler sends the dashboard paths to handlers that only read the state, and
  everything else to the final handler. \<open>serveStatus\<close> reports the limiter's \<open>Stats\<close>.
\<close>

definition rootHandler :: handler where
  "rootHandler env g r =
     (if URL_Path r = ''/dashboard'' then ([302], g)
      else if HasPrefix (URL_Path r) ''/dashboard/'' then ([aux_status env], g)
      else if HasPrefix (URL_Path r) ''/api/dashboard'' then ([aux_status env], g)
      else finalHandler env g r)"

definition serveStatus :: "Gateway \<Rightarrow> nat \<times> nat" where
  "serveStatus g = Stats (limiter (limiter_st g))"

subsection \<open>The policy watcher and the start of the process\<close>

text \<open>
  One iteration of the loop in \<open>Watch\<close> sees the result of \<open>os.Stat\<close> (\<open>None\<close>: an error,
  otherwise the modification time) and the file system \<open>os.ReadFile\<close> reads. The zero
  \<open>time.Time\<close> is 1 January of year 1.
\<close>

record watch_obs =
  stat_modtime :: "Time option"
  obs_fs :: filesystem

definition zeroTime :: Time where
  "zeroTime = - 62135596800000000000"

definition policies_path :: string where
  "policies_path = ''./policies/policies.yaml''"

definition watch_iteration ::
  "(string \<Rightarrow> PolicyFile option) \<Rightarrow> Engine \<times> Time \<Rightarrow> watch_obs \<Rightarrow> Engine \<times> Time" where
  "watch_iteration unmarshal st obs =
     (case stat_modtime obs of
        None \<Rightarrow> (invalidate (fst st), snd st)
      | Some mt \<Rightarrow>
          if mt > snd st then
            (case fst (LoadFromFile unmarshal (obs_fs obs) (fst st) policies_path) of
               Some err \<Rightarrow>
                 (snd (LoadFromFile unmarshal (obs_fs obs) (fst st) policies_path), snd st)
             | None \<Rightarrow>
                 (snd (LoadFromFile unmarshal (obs_fs obs) (fst st) policies_path), mt))
          else st)"

definition convertPolicyRulesToRBACPolicies :: "Rule list \<Rightarrow> Policy list" where
  "convertPolicyRulesToRBACPolicies rules =
     map (\<lambda>rule. \<lparr>Policy_Method = Rule_Method rule, Policy_Path = Rule_Path rule,
                   Policy_Roles = Rule_Roles rule\<rparr>) rules"

text \<open>
  The start of \<open>main\<close>, in the order of the source: open the audit log, load the
  policies, start the watcher, and only then build the RBAC middleware from
  \<open>GetPolicies()\<close>. The watcher is a goroutine: \<open>early\<close> lists the iterations it
  completes before \<open>main\<close> reads the policies (none, when \<open>main\<close> runs on first).
\<close>

definition engine_at_snapshot ::
  "(string \<Rightarrow> PolicyFile option) \<Rightarrow> filesystem \<Rightarrow> watch_obs list \<Rightarrow> Engine \<times> Time" where
  "engine_at_snapshot unmarshal fs early =
     foldl (watch_iteration unmarshal)
       (snd (LoadFromFile unmarshal fs NewEngine policies_path), zeroTime) early"

definition main_start ::
  "(string \<Rightarrow> PolicyFile option) \<Rightarrow> log_line list \<Rightarrow> filesystem \<Rightarrow> watch_obs list \<Rightarrow> Time
     \<Rightarrow> Gateway" where
  "main_start unmarshal audit_content fs early now =
     \<lparr>auditLogger = NewLogger audit_content,
      policyEngine = fst (engine_at_snapshot unmarshal fs early),
      lastMod = snd (engine_at_snapshot unmarshal fs early),
      rbacPolicies =
        convertPolicyRulesToRBACPolicies (GetPolicies (fst (engine_at_snapshot unmarshal fs early))),
      limiter_st = \<lparr>limiter = NewLimiter,
                     fallbackBucket = newBucket FallbackCapacity FallbackRefillPS now\<rparr>,
      demoStore = NewDemoStore,
      stats = NewStatsCollector now\<rparr>"

text \<open>After the start the process serves requests while the watcher keeps polling.\<close>

datatype event = WatcherTick watch_obs | Serve Env Request

definition step :: "(string \<Rightarrow> PolicyFile option) \<Rightarrow> Gateway \<Rightarrow> event \<Rightarrow> Gateway" where
  "step unmarshal g ev =
     (case ev of
        WatcherTick obs \<Rightarrow>
          g\<lparr>policyEngine := fst (watch_iteration unmarshal (policyEngine g, lastMod g) obs),
            lastMod := snd (watch_iteration unmarshal (policyEngine g, lastMod g) obs)\<rparr>
      | Serve env r \<Rightarrow> snd (rootHandler env g r))"

definition run :: "(string \<Rightarrow> PolicyFile option) \<Rightarrow> Gateway \<Rightarrow> event list \<Rightarrow> Gateway" where
  "run unmarshal g evs = foldl (step unmarshal) g evs"

section \<open>Bearer token authentication (package auth, jwt.go)\<close>

text \<open>
  A decoded JSON value of a claim: a string, a number (\<open>float64\<close>, modelled by a real), an
  array, or anything else (a boolean, null, an object). \<open>MapClaims\<close> maps claim names to
  values.
\<close>

datatype json_value = JString string | JNumber real | JArray "json_value list" | JOther

type_synonym MapClaims = "(string \<times> json_value) list"

record Token =
  Alg :: string
  Claims :: MapClaims
  Valid :: bool

record JWTConfig =
  cfg_Issuer :: string
  cfg_Audience :: string
  PublicKey :: string

text \<open>
  The library \<open>github.com/golang-jwt/jwt/v5\<close> is outside the repository. Its parts are
  parameters: \<open>decode\<close> splits and decodes the compact token without verifying it
  (\<open>None\<close>: malformed), \<open>verify\<close> checks the signature of the token text with the token's
  method and a key, \<open>validate\<close> is the library's own validation of the registered claims.
  \<open>jwt_Parse\<close> is \<open>jwt.Parse\<close> as the library documents it: the key function is called on
  the decoded token and its error fails the parse; the token is returned, marked valid,
  only when the signature verifies with the key the key function returned and the claims
  validate. \<open>None\<close> stands for a non-nil error.
\<close>

record jwt_library =
  decode :: "string \<Rightarrow> Token option"
  verify :: "Token \<Rightarrow> string \<Rightarrow> string \<Rightarrow> bool"
  validate :: "MapClaims \<Rightarrow> bool"

definition jwt_Parse :: "jwt_library \<Rightarrow> string \<Rightarrow> (Token \<Rightarrow> string option) \<Rightarrow> Token option" where
  "jwt_Parse lib tokenStr keyFunc =
     (case decode lib tokenStr of
        None \<Rightarrow> None
      | Some t \<Rightarrow>
          (case keyFunc t of
             None \<Rightarrow> None
           | Some key \<Rightarrow>
               if \<not> verify lib t tokenStr key then None
               else if \<not> validate lib (Claims t) then None
               else Some (t\<lparr>Valid := True\<rparr>)))"

text \<open>
  The conversion \<open>int64(x)\<close> of a \<open>float64\<close> truncates toward zero; when the result does not
  fit 64 bits Go leaves it to the implementation, here the parameter \<open>oor\<close>.
\<close>

definition float64_to_int64 :: "(real \<Rightarrow> int) \<Rightarrow> real \<Rightarrow> int" where
  "float64_to_int64 oor x =
     (if - (2 ^ 63) \<le> (if 0 \<le> x then \<lfloor>x\<rfloor> else \<lceil>x\<rceil>) \<and> (if 0 \<le> x then \<lfloor>x\<rfloor> else \<lceil>x\<rceil>) < 2 ^ 63
      then (if 0 \<le> x then \<lfloor>x\<rfloor> else \<lceil>x\<rceil>) else oor x)"

fun string_elements :: "json_value list \<Rightarrow> string list" where
  "string_elements [] = []"
| "string_elements (JString s # vs) = s # string_elements vs"
| "string_elements (v # vs) = string_elements vs"

definition extractRoles :: "MapClaims \<Rightarrow> string list" where
  "extractRoles claims =
     (case map_of claims ''roles'' of
        Some (JArray list) \<Rightarrow> string_elements list
      | _ \<Rightarrow> [])"

text \<open>\<open>strings.SplitN(s, " ", 2)\<close>: \<open>None\<close> when there is no space, so that one part results.\<close>

definition SplitN2 :: "string \<Rightarrow> (string \<times> string) option" where
  "SplitN2 s = map_option (\<lambda>i. (take i s, drop (Suc i) s)) (IndexByte s CHR '' '')"

definition keyFunc :: "JWTConfig \<Rightarrow> Token \<Rightarrow> string option" where
  "keyFunc cfg t = (if Alg t \<noteq> ''RS256'' then None else Some (PublicKey cfg))"

text \<open>The claim checks, entered with the claims of a token that parsed as valid.\<close>

definition check_claims :: "(real \<Rightarrow> int) \<Rightarrow> JWTConfig \<Rightarrow> int \<Rightarrow> Request \<Rightarrow> MapClaims \<Rightarrow> stage_result" where
  "check_claims oor cfg now_unix r claims =
     (if map_of claims ''iss'' \<noteq> Some (JString (cfg_Issuer cfg))
      then Respond StatusUnauthorized ''invalid token issuer''
      else case map_of claims ''aud'' of
        Some (JString aud) \<Rightarrow>
          if aud \<noteq> cfg_Audience cfg then Respond StatusUnauthorized ''invalid token audience''
          else (case map_of claims ''exp'' of
            Some (JNumber expf) \<Rightarrow>
              if now_unix > float64_to_int64 oor expf
              then Respond StatusUnauthorized ''token expired''
              else (case map_of claims ''sub'' of
                Some (JString sub) \<Rightarrow>
                  if sub = [] then Respond StatusUnauthorized ''token subject missing''
                  else Forward (r\<lparr>Ctx := WithIdentity (Ctx r)
                         \<lparr>Type = AuthJWT, Subject = sub, Roles = extractRoles claims,
                          Issuer = cfg_Issuer cfg, Audience = cfg_Audience cfg\<rparr>\<rparr>)
              | _ \<Rightarrow> Respond StatusUnauthorized ''token subject missing'')
          | _ \<Rightarrow> Respond StatusUnauthorized ''token expired'')
      | _ \<Rightarrow> Respond StatusUnauthorized ''invalid token audience'')"

definition JWTMiddleware ::
  "jwt_library \<Rightarrow> (real \<Rightarrow> int) \<Rightarrow> JWTConfig \<Rightarrow> int \<Rightarrow> Request \<Rightarrow> stage_result" where
  "JWTMiddleware lib oor cfg now_unix r =
     (if URL_Path r = ''/health'' then Forward r
      else if Header_Get r ''Authorization'' = []
      then Respond StatusUnauthorized ''missing Authorization header''
      else case SplitN2 (Header_Get r ''Authorization'') of
        None \<Rightarrow> Respond StatusUnauthorized ''invalid Authorization header format''
      | Some (scheme, tokenStr) \<Rightarrow>
          if scheme \<noteq> ''Bearer''
          then Respond StatusUnauthorized ''invalid Authorization header format''
          else (case jwt_Parse lib tokenStr (keyFunc cfg) of
            None \<Rightarrow> Respond StatusUnauthorized ''invalid token''
          | Some token \<Rightarrow>
              if \<not> Valid token then Respond StatusUnauthorized ''invalid token''
              else check_claims oor cfg now_unix r (Claims token)))"


(* MORE-DEFS *)

section \<open>Test data\<close>

text \<open>The requests, rule sets and files of the repository's tests, used to run the model.\<close>

definition rbac_test_request :: Request where
  "rbac_test_request =
     \<lparr>Method = ''GET'', URL_Path = ''/api/resource'', Header = [], ContentLength = 0,
      Body = [], RemoteAddr = ''192.0.2.1:1234'',
      Ctx = WithIdentity []
        \<lparr>Type = AuthAPIKey, Subject = ''test-id'', Roles = [''admin''], Issuer = [],
         Audience = []\<rparr>\<rparr>"

definition rbac_test_policies :: "Policy list" where
  "rbac_test_policies =
     [\<lparr>Policy_Method = ''POST'', Policy_Path = ''/api'', Policy_Roles = [''admin'']\<rparr>,
      \<lparr>Policy_Method = ''GET'', Policy_Path = ''/api'', Policy_Roles = [''user'']\<rparr>,
      \<lparr>Policy_Method = ''GET'', Policy_Path = ''/api'', Policy_Roles = [''admin'']\<rparr>]"

text \<open>
  The YAML decoder maps the text of the valid test file to its one rule
  and the text of the invalid test file to the rule \<open>(method "", path api, roles [])\<close>.
\<close>

definition test_unmarshal :: "string \<Rightarrow> PolicyFile option" where
  "test_unmarshal data =
     (if data = ''valid'' then
        Some \<lparr>Policies = [\<lparr>Rule_Method = ''GET'', Rule_Path = ''/api'', Rule_Roles = [''admin'']\<rparr>]\<rparr>
      else if data = ''invalid'' then
        Some \<lparr>Policies = [\<lparr>Rule_Method = [], Rule_Path = ''api'', Rule_Roles = []\<rparr>]\<rparr>
      else None)"

definition test_fs :: "string \<Rightarrow> filesystem" where
  "test_fs content = (\<lambda>path. if path = ''policies.yaml'' then Some content else None)"








definition bare_request :: Request where
  "bare_request =
     \<lparr>Method = ''GET'', URL_Path = ''/api/public'', Header = [], ContentLength = 0,
      Body = [], RemoteAddr = ''192.0.2.1:1234'', Ctx = []\<rparr>"

definition test_env :: Env where
  "test_env =
     \<lparr>clock_now = 0, wall_now = 0,
      log_now = \<lparr>unix_nanos = 1700000000500000000, zone_offset = 3600\<rparr>,
      write_ok = True, upstream_status = 200, aux_status = 200\<rparr>"

definition main_fs :: "string \<Rightarrow> filesystem" where
  "main_fs content = (\<lambda>path. if path = policies_path then Some content else None)"

definition test_gateway :: Gateway where
  "test_gateway = main_start test_unmarshal [] (main_fs ''valid'') [] 0"

definition admin_request :: Request where
  "admin_request =
     \<lparr>Method = ''GET'', URL_Path = ''/api/public'',
      Header = [(''User-Agent'', [''curl'']),
                (''X-API-Key'',
                 [''deef0admin0000000000000000000000000000000000000000000000000000''])],
      ContentLength = 0, Body = [], RemoteAddr = ''192.0.2.1:1234'', Ctx = []\<rparr>"

definition stat_failure :: watch_obs where
  "stat_failure = \<lparr>stat_modtime = None, obs_fs = main_fs ''valid''\<rparr>"

definition test_events :: "event list" where
  "test_events = [Serve test_env admin_request, WatcherTick stat_failure, Serve test_env bare_request]"

definition jwt_test_token :: Token where
  "jwt_test_token =
     \<lparr>Alg = ''RS256'',
      Claims = [(''iss'', JString ''gateway-issuer''), (''aud'', JString ''gateway-clients''),
                (''exp'', JNumber 2000000000), (''sub'', JString ''alice''),
                (''roles'', JArray [JString ''admin'', JNumber 7, JString ''dev''])],
      Valid = False\<rparr>"

definition jwt_none_token :: Token where
  "jwt_none_token = jwt_test_token\<lparr>Alg := ''none''\<rparr>"

definition jwt_test_library :: jwt_library where
  "jwt_test_library =
     \<lparr>decode = (\<lambda>s. if s = ''signed.rs256.token'' then Some jwt_test_token
                      else if s = ''unsigned.none.token'' then Some jwt_none_token else None),
      verify = (\<lambda>t s key. Alg t = ''none'' \<or> key = ''gateway-public-key''),
      validate = (\<lambda>c. True)\<rparr>"

definition jwt_test_config :: JWTConfig where
  "jwt_test_config =
     \<lparr>cfg_Issuer = ''gateway-issuer'', cfg_Audience = ''gateway-clients'',
      PublicKey = ''gateway-public-key''\<rparr>"

definition jwt_request :: Request where
  "jwt_request =
     \<lparr>Method = ''GET'', URL_Path = ''/api/admin'',
      Header = [(''Authorization'', [''Bearer signed.rs256.token''])], ContentLength = 0,
      Body = [], RemoteAddr = ''192.0.2.1:1234'', Ctx = []\<rparr>"

definition jwt_none_request :: Request where
  "jwt_none_request = jwt_request\<lparr>Header := [(''Authorization'', [''Bearer unsigned.none.token''])]\<rparr>"



section \<open>Properties of the RBAC evaluator\<close>

lemma role_among_iff: "role_among ur ars \<longleftrightarrow> ur \<in> set ars"
  by (induction ars) auto

lemma hasAllowedRole_iff: "hasAllowedRole urs ars \<longleftrightarrow> set urs \<inter> set ars \<noteq> {}"
  by (induction urs) (auto simp: role_among_iff)

lemma evaluate_policies_cases:
  "evaluate_policies ps idn r = Forward r \<or>
   evaluate_policies ps idn r = Respond StatusForbidden ''access denied''"
  by (induction ps) auto

lemma evaluate_policies_Forward_iff:
  "evaluate_policies ps idn r = Forward r \<longleftrightarrow>
     (\<exists>p \<in> set ps. Method r = Policy_Method p \<and> HasPrefix (URL_Path r) (Policy_Path p)
        \<and> set (Roles idn) \<inter> set (Policy_Roles p) \<noteq> {})"
  by (induction ps) (auto simp: hasAllowedRole_iff)

text \<open>
  C1. A request whose path is not \<open>/health\<close> and that carries no Identity is answered
  403. With an Identity it is forwarded to the next handler exactly when some rule of the
  configured list has the request's method (exact comparison of the bytes), a path that
  is a prefix of the request's path, and a role in common with the identity; a matching
  rule without a common role does not end the search. Otherwise the answer is 403.
\<close>

theorem RBACMiddleware_decides:
  assumes "URL_Path r \<noteq> ''/health''"
  shows "(FromContext (Ctx r) = None \<longrightarrow>
            RBACMiddleware ps r = Respond StatusForbidden ''access denied'')
       \<and> (\<forall>idn. FromContext (Ctx r) = Some idn \<longrightarrow>
            ((RBACMiddleware ps r = Forward r) \<longleftrightarrow>
               (\<exists>p \<in> set ps. Method r = Policy_Method p
                   \<and> HasPrefix (URL_Path r) (Policy_Path p)
                   \<and> set (Roles idn) \<inter> set (Policy_Roles p) \<noteq> {}))
          \<and> (RBACMiddleware ps r \<noteq> Forward r \<longrightarrow>
                RBACMiddleware ps r = Respond StatusForbidden ''access denied''))"
proof -
  have none: "FromContext (Ctx r) = None \<longrightarrow>
      RBACMiddleware ps r = Respond StatusForbidden ''access denied''"
    using assms by (simp add: RBACMiddleware_def)
  have some: "RBACMiddleware ps r = evaluate_policies ps idn r"
    if "FromContext (Ctx r) = Some idn" for idn
    using assms that by (simp add: RBACMiddleware_def)
  show ?thesis
    using none some evaluate_policies_Forward_iff [of ps _ r] evaluate_policies_cases [of ps _ r]
    by metis
qed


theorem RBACMiddleware_decides_witness:
  "URL_Path rbac_test_request \<noteq> ''/health''
   \<and> RBACMiddleware rbac_test_policies rbac_test_request = Forward rbac_test_request"
proof -
  let ?idn = "\<lparr>Type = AuthAPIKey, Subject = ''test-id'', Roles = [''admin''], Issuer = [],
                Audience = []\<rparr>"
  have h: "URL_Path rbac_test_request \<noteq> ''/health''"
    by (simp add: rbac_test_request_def)
  have idn: "FromContext (Ctx rbac_test_request) = Some ?idn"
    by (simp add: rbac_test_request_def FromContext_def Value_def WithIdentity_def
        WithValue_def)
  have ex: "\<exists>p \<in> set rbac_test_policies. Method rbac_test_request = Policy_Method p
      \<and> HasPrefix (URL_Path rbac_test_request) (Policy_Path p)
      \<and> set (Roles ?idn) \<inter> set (Policy_Roles p) \<noteq> {}"
    by (simp add: rbac_test_request_def rbac_test_policies_def HasPrefix_def)
  from RBACMiddleware_decides [OF h, of rbac_test_policies] idn ex h
  show ?thesis by blast
qed


section \<open>Properties of the policy engine\<close>

lemma GetPolicies_invalidate: "GetPolicies (invalidate e) = []"
  by (simp add: GetPolicies_def invalidate_def)

lemma LoadFromFile_error:
  "fst (LoadFromFile u fs e path) \<noteq> None \<Longrightarrow> GetPolicies (snd (LoadFromFile u fs e path)) = []"
  by (auto simp: LoadFromFile_def GetPolicies_invalidate split: option.splits)

lemma LoadFromFile_fails_iff:
  "fst (LoadFromFile u fs e path) \<noteq> None \<longleftrightarrow>
     (fs path = None
      \<or> (\<exists>data. fs path = Some data
            \<and> (u data = None
                \<or> (\<exists>pf. u data = Some pf \<and> validatePolicyFile pf \<noteq> None))))"
  by (auto simp: LoadFromFile_def split: option.splits)

lemma LoadFromFile_success:
  "fst (LoadFromFile u fs e path) = None \<Longrightarrow>
     \<exists>data pf. fs path = Some data \<and> u data = Some pf \<and> validatePolicyFile pf = None
        \<and> GetPolicies (snd (LoadFromFile u fs e path)) = Policies pf"
  by (auto simp: LoadFromFile_def GetPolicies_def split: option.splits)

text \<open>
  C2. \<open>LoadFromFile\<close> fails exactly when the file cannot be read, the YAML does not
  parse, or validation rejects the parsed file. After a failed call \<open>GetPolicies\<close>
  returns the empty rule set whatever the engine held before; in particular after a
  successful load followed by a failed one. After a successful call \<open>GetPolicies\<close>
  returns exactly the rule sequence of the parsed file.
\<close>

theorem LoadFromFile_deny_all:
  "(fst (LoadFromFile u fs e path) \<noteq> None \<longleftrightarrow>
      (fs path = None
       \<or> (\<exists>data. fs path = Some data
             \<and> (u data = None
                 \<or> (\<exists>pf. u data = Some pf \<and> validatePolicyFile pf \<noteq> None)))))
   \<and> (fst (LoadFromFile u fs e path) \<noteq> None \<longrightarrow>
        GetPolicies (snd (LoadFromFile u fs e path)) = [])
   \<and> (fst (LoadFromFile u fs e path) = None \<longrightarrow>
        (\<exists>data pf. fs path = Some data \<and> u data = Some pf
           \<and> GetPolicies (snd (LoadFromFile u fs e path)) = Policies pf))
   \<and> (\<forall>fs' path'.
        fst (LoadFromFile u fs e path) = None
        \<and> fst (LoadFromFile u fs' (snd (LoadFromFile u fs e path)) path') \<noteq> None \<longrightarrow>
        GetPolicies (snd (LoadFromFile u fs' (snd (LoadFromFile u fs e path)) path')) = [])"
proof (intro conjI allI impI)
  show "fst (LoadFromFile u fs e path) \<noteq> None \<longleftrightarrow>
      (fs path = None
       \<or> (\<exists>data. fs path = Some data
             \<and> (u data = None
                 \<or> (\<exists>pf. u data = Some pf \<and> validatePolicyFile pf \<noteq> None))))"
    by (rule LoadFromFile_fails_iff)
next
  assume "fst (LoadFromFile u fs e path) \<noteq> None"
  then show "GetPolicies (snd (LoadFromFile u fs e path)) = []"
    by (rule LoadFromFile_error)
next
  assume "fst (LoadFromFile u fs e path) = None"
  from LoadFromFile_success [OF this]
  show "\<exists>data pf. fs path = Some data \<and> u data = Some pf
           \<and> GetPolicies (snd (LoadFromFile u fs e path)) = Policies pf"
    by blast
next
  fix fs' path'
  assume "fst (LoadFromFile u fs e path) = None
        \<and> fst (LoadFromFile u fs' (snd (LoadFromFile u fs e path)) path') \<noteq> None"
  then show "GetPolicies (snd (LoadFromFile u fs' (snd (LoadFromFile u fs e path)) path')) = []"
    by (simp add: LoadFromFile_error)
qed

theorem LoadFromFile_deny_all_witness:
  "fst (LoadFromFile test_unmarshal (test_fs ''valid'') NewEngine ''policies.yaml'') = None
   \<and> GetPolicies (snd (LoadFromFile test_unmarshal (test_fs ''valid'') NewEngine ''policies.yaml''))
       = [\<lparr>Rule_Method = ''GET'', Rule_Path = ''/api'', Rule_Roles = [''admin'']\<rparr>]
   \<and> fst (LoadFromFile test_unmarshal (test_fs ''invalid'')
        (snd (LoadFromFile test_unmarshal (test_fs ''valid'') NewEngine ''policies.yaml''))
        ''policies.yaml'') \<noteq> None
   \<and> GetPolicies (snd (LoadFromFile test_unmarshal (test_fs ''invalid'')
        (snd (LoadFromFile test_unmarshal (test_fs ''valid'') NewEngine ''policies.yaml''))
        ''policies.yaml'')) = []"
proof -
  let ?e1 = "LoadFromFile test_unmarshal (test_fs ''valid'') NewEngine ''policies.yaml''"
  let ?e2 = "LoadFromFile test_unmarshal (test_fs ''invalid'') (snd ?e1) ''policies.yaml''"
  have valid: "validatePolicyFile
      \<lparr>Policies = [\<lparr>Rule_Method = ''GET'', Rule_Path = ''/api'', Rule_Roles = [''admin'']\<rparr>]\<rparr> = None"
    by (simp add: validatePolicyFile_def TrimSpace_def space_encodings_def HasPrefix_def)
  have ok: "fst ?e1 = None"
    by (simp add: LoadFromFile_def test_unmarshal_def test_fs_def valid)
  have pols: "GetPolicies (snd ?e1)
      = [\<lparr>Rule_Method = ''GET'', Rule_Path = ''/api'', Rule_Roles = [''admin'']\<rparr>]"
    by (simp add: LoadFromFile_def test_unmarshal_def test_fs_def valid GetPolicies_def)
  have bad: "fst ?e2 \<noteq> None"
    by (simp add: LoadFromFile_def test_unmarshal_def test_fs_def validatePolicyFile_def
        TrimSpace_def)
  from LoadFromFile_deny_all [of test_unmarshal "test_fs ''valid''" NewEngine "''policies.yaml''"]
  have "GetPolicies (snd ?e2) = []"
    using ok bad by blast
  with ok pols bad show ?thesis by blast
qed

section \<open>Properties of binary64 arithmetic\<close>

lemma pow2_pos: "0 < pow2 e"
  by (simp add: pow2_def)

lemma pow2_add: "pow2 (a + b) = pow2 a * pow2 b"
proof -
  have "pow2 e = 2 powr (of_int e)" for e
    by (simp add: pow2_def powr_realpow [symmetric] powr_minus field_simps)
  then show ?thesis by (simp add: powr_add)
qed


lemma halvings_bounds:
  "1 \<le> x \<Longrightarrow> x < 2 ^ n \<Longrightarrow> 2 ^ halvings n x \<le> x \<and> x < 2 * 2 ^ halvings n x"
proof (induction n arbitrary: x)
  case 0
  then show ?case by simp
next
  case (Suc n)
  show ?case
  proof (cases "x < 2")
    case True
    with Suc.prems show ?thesis by simp
  next
    case False
    then have "1 \<le> x / 2" "x / 2 < 2 ^ n" using Suc.prems by simp_all
    from Suc.IH [OF this] False show ?thesis by simp
  qed
qed

lemma doublings_bounds:
  "0 < x \<Longrightarrow> x < 1 \<Longrightarrow> 1 \<le> x * 2 ^ n \<Longrightarrow>
     1 \<le> x * 2 ^ doublings n x \<and> x * 2 ^ doublings n x < 2"
proof (induction n arbitrary: x)
  case 0
  then show ?case by simp
next
  case (Suc n)
  show ?case
  proof (cases "1 \<le> x * 2")
    case True
    have "doublings (Suc n) x = Suc (doublings n (x * 2))" using Suc.prems by simp
    moreover have "doublings n (x * 2) = 0" using True by (cases n) simp_all
    ultimately show ?thesis using True Suc.prems by simp
  next
    case False
    then have "0 < x * 2" "x * 2 < 1" "1 \<le> x * 2 * 2 ^ n" using Suc.prems by (simp_all add: mult.assoc)
    from Suc.IH [OF this] Suc.prems show ?thesis by (simp add: mult.assoc)
  qed
qed

lemma doublings_le: "doublings n x \<le> n"
  by (induction n arbitrary: x) auto

lemma doublings_tiny: "x * 2 ^ n < 1 \<Longrightarrow> 0 \<le> x \<Longrightarrow> doublings n x = n"
proof (induction n arbitrary: x)
  case 0
  then show ?case by simp
next
  case (Suc n)
  have "x < 1"
  proof (rule ccontr)
    assume "\<not> x < 1"
    then have "1 \<le> x" by simp
    moreover have "(1::real) \<le> 2 ^ Suc n" by (rule one_le_power) simp
    ultimately have "1 * 1 \<le> x * 2 ^ Suc n" by (intro mult_mono) simp_all
    with Suc.prems show False by simp
  qed
  moreover have "doublings n (x * 2) = n" using Suc.prems by (intro Suc.IH) (simp_all add: mult.assoc)
  ultimately show ?case by simp
qed

lemma exponent64_ge: "- 1022 \<le> exponent64 x"
  using doublings_le [of 1022 x] by (simp add: exponent64_def)

lemma exponent64_tiny: "0 \<le> x \<Longrightarrow> x < pow2 (- 1022) \<Longrightarrow> exponent64 x = - 1022"
proof -
  assume a: "0 \<le> x" "x < pow2 (- 1022)"
  then have "x * 2 ^ 1022 < 1" by (simp add: pow2_def field_simps)
  then have "doublings 1022 x = 1022" using a(1) by (rule doublings_tiny)
  moreover have "x < 1"
  proof -
    have "pow2 (- 1022) \<le> 1" by (simp add: pow2_def)
    with a show ?thesis by simp
  qed
  ultimately show ?thesis by (simp add: exponent64_def)
qed

lemma exponent64_normal:
  assumes "pow2 (- 1022) \<le> x" and "x < 2 ^ 1100"
  shows "pow2 (exponent64 x) \<le> x \<and> x < 2 * pow2 (exponent64 x)"
proof (cases "1 \<le> x")
  case True
  from halvings_bounds [OF True assms(2)] True show ?thesis
    by (simp add: exponent64_def pow2_def)
next
  case False
  have pos: "0 < x" using assms(1) pow2_pos [of "- 1022"] by linarith
  have "1 \<le> x * 2 ^ 1022" using assms(1) by (simp add: pow2_def field_simps)
  with doublings_bounds [of x 1022] pos False
  have b: "1 \<le> x * 2 ^ doublings 1022 x \<and> x * 2 ^ doublings 1022 x < 2" by simp
  have p: "pow2 (- int (doublings 1022 x)) = 1 / 2 ^ doublings 1022 x"
    by (simp add: pow2_def)
  have "1 / 2 ^ doublings 1022 x \<le> x" using b by (simp add: field_simps)
  moreover have "x < 2 * (1 / 2 ^ doublings 1022 x)" using b by (simp add: field_simps)
  ultimately show ?thesis using False by (simp add: exponent64_def p)
qed

lemma round_half_even_near: "\<bar>of_int (round_half_even q) - q\<bar> \<le> 1 / 2"
  unfolding round_half_even_def by (auto simp: abs_if) linarith+

lemma round_half_even_int [simp]: "round_half_even (of_int k) = k"
  by (simp add: round_half_even_def)

lemma round_half_even_nonneg: "0 \<le> q \<Longrightarrow> 0 \<le> round_half_even q"
  by (simp add: round_half_even_def)

lemma ulp_pos: "0 < ulp x"
  by (simp add: ulp_def pow2_pos)

lemma rnd_nonneg: "0 \<le> x \<Longrightarrow> 0 \<le> rnd x"
  using ulp_pos [of x] by (simp add: rnd_def round_half_even_nonneg)

lemma rnd_near: "\<bar>rnd x - x\<bar> \<le> ulp x / 2"
proof -
  have "rnd x - x = (of_int (round_half_even (x / ulp x)) - x / ulp x) * ulp x"
    using ulp_pos [of x] by (simp add: rnd_def field_simps)
  then have "\<bar>rnd x - x\<bar> = \<bar>of_int (round_half_even (x / ulp x)) - x / ulp x\<bar> * ulp x"
    using ulp_pos [of x] by (simp add: abs_mult)
  also have "\<dots> \<le> (1 / 2) * ulp x"
    using round_half_even_near [of "x / ulp x"] ulp_pos [of x] by (intro mult_right_mono) simp_all
  finally show ?thesis by simp
qed

lemma ulp_normal:
  assumes "pow2 (- 1022) \<le> x" and "x < 2 ^ 1100"
  shows "ulp x \<le> x / 2 ^ 52"
proof -
  have "0 \<le> x" using assms(1) pow2_pos [of "- 1022"] by linarith
  then have "ulp x = pow2 (exponent64 x + (- 52))" by (simp add: ulp_def)
  also have "\<dots> = pow2 (exponent64 x) / 2 ^ 52" unfolding pow2_add by (simp add: pow2_def)
  also have "\<dots> \<le> x / 2 ^ 52"
    using exponent64_normal [OF assms] by (simp add: divide_right_mono)
  finally show ?thesis .
qed

lemma rnd_normal_le:
  assumes "pow2 (- 1022) \<le> x" and "x < 2 ^ 1100"
  shows "rnd x \<le> x * (1 + u64)" and "x * (1 - u64) \<le> rnd x"
proof -
  have "ulp x / 2 \<le> x * u64" using ulp_normal [OF assms] by (simp add: u64_def field_simps)
  with rnd_near [of x] have "\<bar>rnd x - x\<bar> \<le> x * u64" by linarith
  then show "rnd x \<le> x * (1 + u64)" and "x * (1 - u64) \<le> rnd x"
    by (simp_all add: algebra_simps abs_le_iff)
qed

lemma grid_def2: "grid x \<longleftrightarrow> (\<exists>k :: int. x = of_int k * pow2 (- 1074))"
proof -
  define c :: real where "c = 2 ^ 1074"
  have c: "0 < c" unfolding c_def by (rule zero_less_power) simp
  have p: "pow2 (- 1074) = 1 / c" unfolding c_def pow2_def by simp
  have g: "grid x \<longleftrightarrow> of_int \<lfloor>x * c\<rfloor> = x * c" unfolding grid_def c_def ..
  show ?thesis
  proof
    assume "grid x"
    then have "x * c = of_int \<lfloor>x * c\<rfloor>" unfolding g by (rule sym)
    then have "x = of_int \<lfloor>x * c\<rfloor> * pow2 (- 1074)" using c unfolding p by (simp add: field_simps)
    then show "\<exists>k :: int. x = of_int k * pow2 (- 1074)" by blast
  next
    assume "\<exists>k :: int. x = of_int k * pow2 (- 1074)"
    then obtain k :: int where "x = of_int k * pow2 (- 1074)" by blast
    then have "x * c = of_int k" using c unfolding p by simp
    then show "grid x" unfolding g by simp
  qed
qed

lemma grid_rnd: "grid (rnd x)"
proof -
  have e: "0 \<le> exponent64 \<bar>x\<bar> + 1022" using exponent64_ge [of "\<bar>x\<bar>"] by simp
  have "ulp x = pow2 ((exponent64 \<bar>x\<bar> + 1022) + (- 1074))" by (simp add: ulp_def)
  also have "\<dots> = pow2 (exponent64 \<bar>x\<bar> + 1022) * pow2 (- 1074)"
    by (rule pow2_add)
  also have "pow2 (exponent64 \<bar>x\<bar> + 1022) = of_int (2 ^ nat (exponent64 \<bar>x\<bar> + 1022))"
    using e unfolding pow2_def by simp
  finally have "rnd x = of_int (round_half_even (x / ulp x) * 2 ^ nat (exponent64 \<bar>x\<bar> + 1022)) * pow2 (- 1074)"
    by (simp add: rnd_def)
  then show ?thesis unfolding grid_def2 by blast
qed

lemma grid_add: "grid x \<Longrightarrow> grid y \<Longrightarrow> grid (x + y)"
  unfolding grid_def2
proof -
  assume "\<exists>k. x = of_int k * pow2 (- 1074)" "\<exists>k. y = of_int k * pow2 (- 1074)"
  then obtain k l :: int where "x = of_int k * pow2 (- 1074)" "y = of_int l * pow2 (- 1074)" by blast
  then have "x + y = of_int (k + l) * pow2 (- 1074)" by (simp add: algebra_simps)
  then show "\<exists>k. x + y = of_int k * pow2 (- 1074)" by blast
qed

lemma grid_minus: "grid x \<Longrightarrow> grid (- x)"
  unfolding grid_def2
proof -
  assume "\<exists>k. x = of_int k * pow2 (- 1074)"
  then obtain k :: int where "x = of_int k * pow2 (- 1074)" by blast
  then have "- x = of_int (- k) * pow2 (- 1074)" by simp
  then show "\<exists>k. - x = of_int k * pow2 (- 1074)" by blast
qed

lemma grid_of_int: "grid (of_int i)"
proof -
  have "of_int i = of_int (i * 2 ^ 1074) * pow2 (- 1074)" by (simp add: pow2_def)
  then show ?thesis unfolding grid_def2 by blast
qed

lemma rnd_grid_tiny:
  assumes "grid x" and "0 \<le> x" and "x < pow2 (- 1022)"
  shows "rnd x = x"
proof -
  from assms(1) obtain k :: int where k: "x = of_int k * pow2 (- 1074)" unfolding grid_def2 by blast
  have "ulp x = pow2 (- 1074)" using exponent64_tiny [OF assms(2,3)] assms(2) by (simp add: ulp_def)
  moreover have "x / pow2 (- 1074) = of_int k" using k pow2_pos [of "- 1074"] by simp
  ultimately show ?thesis using k by (simp add: rnd_def)
qed

lemma rnd_grid_le:
  assumes "grid x" and "0 \<le> x" and "x < 2 ^ 1100"
  shows "rnd x \<le> x * (1 + u64)"
proof (cases "x < pow2 (- 1022)")
  case True
  have "0 \<le> x * u64" using assms(2) by (simp add: u64_def)
  with rnd_grid_tiny [OF assms(1,2) True] show ?thesis by (simp add: algebra_simps)
next
  case False
  then show ?thesis using rnd_normal_le(1) [of x] assms(3) by simp
qed











lemma fsub_Finite: "round64 (x - y) = z \<Longrightarrow> fsub (Finite x) (Finite y) = z"
  by (simp add: fsub_def fround_def)



section \<open>Properties of the token bucket\<close>

lemma Sub_exact: "minDuration \<le> t - u \<Longrightarrow> t - u \<le> maxDuration \<Longrightarrow> Sub t u = t - u"
  by (simp add: Sub_def)

lemma Sub_le: "u \<le> t \<Longrightarrow> 0 \<le> Sub t u \<and> Sub t u \<le> t - u"
  by (simp add: Sub_def Let_def minDuration_def maxDuration_def)







section \<open>Properties of the audit log\<close>




































section \<open>Properties of the gateway\<close>



lemma securedChain_frame:
  "auditLogger (snd (securedChain env g r)) = auditLogger g"
  "stats (snd (securedChain env g r)) = stats g"
  "rbacPolicies (snd (securedChain env g r)) = rbacPolicies g"
  "policyEngine (snd (securedChain env g r)) = policyEngine g"
  "lastMod (snd (securedChain env g r)) = lastMod g"
  "demoStore (snd (securedChain env g r)) = demoStore g"
  by (simp_all add: securedChain_def split: stage_result.splits)


lemma auditMiddleware_frame:
  "rbacPolicies (snd (auditMiddleware h env g r)) = rbacPolicies (snd (h env g r))"
  "policyEngine (snd (auditMiddleware h env g r)) = policyEngine (snd (h env g r))"
  "lastMod (snd (auditMiddleware h env g r)) = lastMod (snd (h env g r))"
  "limiter_st (snd (auditMiddleware h env g r)) = limiter_st (snd (h env g r))"
  "demoStore (snd (auditMiddleware h env g r)) = demoStore (snd (h env g r))"
  by (simp_all add: auditMiddleware_def Let_def)









lemma Validate_Forward: "ValidateRequestMiddleware r = Forward r' \<Longrightarrow> r' = r"
  by (simp add: ValidateRequestMiddleware_def split: option.splits if_splits)

lemma RBAC_Forward: "RBACMiddleware ps r = Forward r' \<Longrightarrow> r' = r"
proof -
  assume a: "RBACMiddleware ps r = Forward r'"
  have "evaluate_policies ps idn r = Forward r' \<Longrightarrow> r' = r" for idn
    using evaluate_policies_cases [of ps idn r] by auto
  with a show ?thesis
    by (auto simp: RBACMiddleware_def split: if_splits option.splits)
qed

lemma APIKey_Forward:
  "APIKeyMiddleware store r = Forward r' \<Longrightarrow>
     Value (Ctx r') UserIDKey = Value (Ctx r) UserIDKey \<and> RemoteAddr r' = RemoteAddr r"
  by (auto simp: APIKeyMiddleware_def Value_def WithIdentity_def WithValue_def
      split: if_splits option.splits)

lemma fallbackAllow_limiter: "limiter (snd (fallbackAllow st w)) = limiter st"
  by (simp add: fallbackAllow_def)

lemma ip_allow_userBuckets:
  "ip_allow st now ip = Some (ok, st1) \<Longrightarrow>
     userBuckets (limiter st1) = userBuckets (limiter st)"
  by (auto simp: ip_allow_def Let_def split: option.splits)

lemma safeAllow_no_user:
  assumes "Value c UserIDKey = None"
  shows "safeAllow st now w c addr =
      (if extractIP addr = [] then fallbackAllow st w
       else case ip_allow st now (extractIP addr) of
              None \<Rightarrow> fallbackAllow st w
            | Some (ok, st1) \<Rightarrow> (ok, st1))"
  using assms by (auto simp: safeAllow_def Let_def split: option.splits)

lemma safeAllow_userBuckets:
  assumes "Value c UserIDKey = None"
  shows "userBuckets (limiter (snd (safeAllow st now w c addr))) = userBuckets (limiter st)"
  unfolding safeAllow_no_user [OF assms]
  by (auto simp: fallbackAllow_limiter ip_allow_userBuckets split: option.splits)

lemma Limiter_Middleware_userBuckets:
  assumes "Value (Ctx r) UserIDKey = None"
  shows "userBuckets (limiter (snd (Limiter_Middleware st now w r))) = userBuckets (limiter st)"
  using safeAllow_userBuckets [OF assms] by (simp add: Limiter_Middleware_def Let_def)

lemma chain_keeps_context:
  assumes "ValidateRequestMiddleware r = Forward r1" and "APIKeyMiddleware store r1 = Forward r2"
    and "RBACMiddleware ps r2 = Forward r3"
  shows "Value (Ctx r3) UserIDKey = Value (Ctx r) UserIDKey"
  using Validate_Forward [OF assms(1)] APIKey_Forward [OF assms(2)] RBAC_Forward [OF assms(3)]
  by simp

lemma securedChain_userBuckets:
  assumes "Value (Ctx r) UserIDKey = None"
  shows "userBuckets (limiter (limiter_st (snd (securedChain env g r))))
           = userBuckets (limiter (limiter_st g))"
proof (cases "\<exists>r1 r2 r3. ValidateRequestMiddleware r = Forward r1
    \<and> APIKeyMiddleware (demoStore g) r1 = Forward r2 \<and> RBACMiddleware (rbacPolicies g) r2 = Forward r3")
  case True
  then obtain r1 r2 r3 where f: "ValidateRequestMiddleware r = Forward r1"
    "APIKeyMiddleware (demoStore g) r1 = Forward r2" "RBACMiddleware (rbacPolicies g) r2 = Forward r3"
    by blast
  from chain_keeps_context [OF f] assms have "Value (Ctx r3) UserIDKey = None" by simp
  from Limiter_Middleware_userBuckets [OF this]
  show ?thesis
    by (simp add: securedChain_def f split: stage_result.splits)
next
  case False
  then show ?thesis
    by (auto simp: securedChain_def split: stage_result.splits)
qed

lemma rootHandler_userBuckets:
  assumes "Value (Ctx r) UserIDKey = None"
  shows "userBuckets (limiter (limiter_st (snd (rootHandler env g r))))
           = userBuckets (limiter (limiter_st g))"
  using securedChain_userBuckets [OF assms]
  by (simp add: rootHandler_def finalHandler_def auditMiddleware_frame)

lemma step_userBuckets:
  assumes "\<And>env r. ev = Serve env r \<Longrightarrow> Value (Ctx r) UserIDKey = None"
  shows "userBuckets (limiter (limiter_st (step u g ev))) = userBuckets (limiter (limiter_st g))"
  using assms by (cases ev) (simp_all add: step_def rootHandler_userBuckets)

lemma run_userBuckets:
  assumes "\<forall>ev \<in> set evs. \<forall>env r. ev = Serve env r \<longrightarrow> Value (Ctx r) UserIDKey = None"
  shows "userBuckets (limiter (limiter_st (run u g evs))) = userBuckets (limiter (limiter_st g))"
  using assms
proof (induction evs rule: rev_induct)
  case Nil
  then show ?case by (simp add: run_def)
next
  case (snoc ev evs)
  have "run u g (evs @ [ev]) = step u (run u g evs) ev" by (simp add: run_def)
  moreover have "userBuckets (limiter (limiter_st (step u (run u g evs) ev)))
      = userBuckets (limiter (limiter_st (run u g evs)))"
    using snoc.prems by (intro step_userBuckets) simp
  ultimately show ?case using snoc by simp
qed

lemma step_rbacPolicies: "rbacPolicies (step u g ev) = rbacPolicies g"
  by (cases ev)
    (simp_all add: step_def rootHandler_def finalHandler_def auditMiddleware_frame
      securedChain_frame)

lemma run_rbacPolicies: "rbacPolicies (run u g evs) = rbacPolicies g"
  by (induction evs rule: rev_induct) (simp_all add: run_def step_rbacPolicies)

text \<open>
  C10. No stage of the secured chain stores a value under \<open>UserIDKey\<close>: the request that
  reaches the limiter carries under that key what the incoming request carried. A request
  without such a value is decided by the IP bucket alone, or by the fallback bucket when
  the address has no host or the IP map is nil. So when the requests served carry no value
  under \<open>UserIDKey\<close>, as every request the HTTP server hands over does, the user map of
  the gateway stays empty through any run of requests and watcher iterations, and the
  dashboard reports 0 user buckets.
\<close>

theorem user_bucket_never_used:
  assumes "\<forall>ev \<in> set evs. \<forall>env r. ev = Serve env r \<longrightarrow> Value (Ctx r) UserIDKey = None"
  shows "userBuckets (limiter (limiter_st (run u (main_start u content fs early now) evs)))
           = Some []
       \<and> snd (serveStatus (run u (main_start u content fs early now) evs)) = 0
       \<and> (\<forall>store ps r r1 r2 r3.
             ValidateRequestMiddleware r = Forward r1 \<and> APIKeyMiddleware store r1 = Forward r2
             \<and> RBACMiddleware ps r2 = Forward r3 \<longrightarrow>
             Value (Ctx r3) UserIDKey = Value (Ctx r) UserIDKey)
       \<and> (\<forall>st t w c addr. Value c UserIDKey = None \<longrightarrow>
             safeAllow st t w c addr =
               (if extractIP addr = [] then fallbackAllow st w
                else case ip_allow st t (extractIP addr) of
                       None \<Rightarrow> fallbackAllow st w
                     | Some (ok, st1) \<Rightarrow> (ok, st1)))"
proof -
  have ub: "userBuckets (limiter (limiter_st (run u (main_start u content fs early now) evs)))
      = Some []"
    using run_userBuckets [OF assms] by (simp add: main_start_def NewLimiter_def)
  then have "snd (serveStatus (run u (main_start u content fs early now) evs)) = 0"
    by (simp add: serveStatus_def Stats_def map_len_def)
  with ub show ?thesis
    using chain_keeps_context safeAllow_no_user by blast
qed

lemma test_events_no_user:
  "\<forall>ev \<in> set test_events. \<forall>env r. ev = Serve env r \<longrightarrow> Value (Ctx r) UserIDKey = None"
  by (simp add: test_events_def admin_request_def bare_request_def Value_def)

theorem user_bucket_never_used_witness:
  "Value (Ctx admin_request) UserIDKey = None \<and> Value (Ctx bare_request) UserIDKey = None
   \<and> userBuckets (limiter (limiter_st (run test_unmarshal test_gateway test_events))) = Some []
   \<and> snd (serveStatus (run test_unmarshal test_gateway test_events)) = 0"
proof -
  have "Value (Ctx admin_request) UserIDKey = None" "Value (Ctx bare_request) UserIDKey = None"
    by (simp_all add: admin_request_def bare_request_def Value_def)
  moreover have "userBuckets (limiter (limiter_st (run test_unmarshal test_gateway test_events)))
        = Some []
      \<and> snd (serveStatus (run test_unmarshal test_gateway test_events)) = 0"
    using user_bucket_never_used [OF test_events_no_user, of test_unmarshal "[]"
        "main_fs ''valid''" "[]" 0]
    unfolding test_gateway_def by blast
  ultimately show ?thesis by simp
qed

text \<open>
  C3 (amended). The rule set the RBAC middleware consults is fixed when the process starts:
  it is the snapshot of \<open>GetPolicies()\<close> that \<open>main\<close> takes once, after it has started the
  watcher. It is the result of the initial load when the watcher has completed no iteration
  by then, and otherwise what those iterations left. No later event, a reload that succeeds
  or fails, an invalidation or a request, changes it or the decision of the RBAC middleware
  for any request.
\<close>

theorem rbac_rules_fixed_at_start:
  "rbacPolicies (main_start u content fs early now)
     = convertPolicyRulesToRBACPolicies (GetPolicies (fst (engine_at_snapshot u fs early)))
   \<and> engine_at_snapshot u fs [] = (snd (LoadFromFile u fs NewEngine policies_path), zeroTime)
   \<and> rbacPolicies (run u g evs) = rbacPolicies g
   \<and> RBACMiddleware (rbacPolicies (run u g evs)) r = RBACMiddleware (rbacPolicies g) r"
  by (simp add: main_start_def engine_at_snapshot_def run_rbacPolicies)

lemma valid_file_loads:
  "LoadFromFile test_unmarshal (main_fs ''valid'') NewEngine policies_path
     = (None, \<lparr>policies = [\<lparr>Rule_Method = ''GET'', Rule_Path = ''/api'', Rule_Roles = [''admin'']\<rparr>],
               loaded = True\<rparr>)"
  by (simp add: LoadFromFile_def main_fs_def test_unmarshal_def validatePolicyFile_def
      TrimSpace_def space_encodings_def HasPrefix_def NewEngine_def)

text \<open>
  The snapshot is not always the one of the initial load: when the first iteration of the
  watcher (here a failing \<open>os.Stat\<close>) completes before \<open>main\<close> reads the policies, the
  gateway serves with the empty rule set although the initial load succeeded.
\<close>

theorem snapshot_follows_early_watcher:
  "convertPolicyRulesToRBACPolicies
     (GetPolicies (snd (LoadFromFile test_unmarshal (main_fs ''valid'') NewEngine policies_path)))
     = [\<lparr>Policy_Method = ''GET'', Policy_Path = ''/api'', Policy_Roles = [''admin'']\<rparr>]
   \<and> rbacPolicies (main_start test_unmarshal [] (main_fs ''valid'') [stat_failure] 0) = []
   \<and> RBACMiddleware
        (convertPolicyRulesToRBACPolicies
          (GetPolicies (snd (LoadFromFile test_unmarshal (main_fs ''valid'') NewEngine policies_path))))
        rbac_test_request = Forward rbac_test_request
   \<and> RBACMiddleware (rbacPolicies (main_start test_unmarshal [] (main_fs ''valid'') [stat_failure] 0))
        rbac_test_request = Respond StatusForbidden ''access denied''"
proof -
  have before: "convertPolicyRulesToRBACPolicies
     (GetPolicies (snd (LoadFromFile test_unmarshal (main_fs ''valid'') NewEngine policies_path)))
     = [\<lparr>Policy_Method = ''GET'', Policy_Path = ''/api'', Policy_Roles = [''admin'']\<rparr>]"
    by (simp add: valid_file_loads GetPolicies_def convertPolicyRulesToRBACPolicies_def)
  have after: "rbacPolicies (main_start test_unmarshal [] (main_fs ''valid'') [stat_failure] 0) = []"
    by (simp add: main_start_def engine_at_snapshot_def watch_iteration_def stat_failure_def
        GetPolicies_invalidate convertPolicyRulesToRBACPolicies_def)
  have idn: "FromContext (Ctx rbac_test_request)
      = Some \<lparr>Type = AuthAPIKey, Subject = ''test-id'', Roles = [''admin''], Issuer = [],
               Audience = []\<rparr>"
    by (simp add: rbac_test_request_def FromContext_def Value_def WithIdentity_def WithValue_def)
  have path: "URL_Path rbac_test_request = ''/api/resource''" "Method rbac_test_request = ''GET''"
    by (simp_all add: rbac_test_request_def)
  have allowed: "RBACMiddleware
      [\<lparr>Policy_Method = ''GET'', Policy_Path = ''/api'', Policy_Roles = [''admin'']\<rparr>]
      rbac_test_request = Forward rbac_test_request"
    by (simp add: RBACMiddleware_def idn path HasPrefix_def)
  have denied: "RBACMiddleware [] rbac_test_request = Respond StatusForbidden ''access denied''"
    by (simp add: RBACMiddleware_def idn path)
  from before after allowed denied show ?thesis by simp
qed

section \<open>Properties of the bearer token authenticator\<close>

lemma IndexByte_split:
  "IndexByte s c = Some i \<longleftrightarrow> (\<exists>a b. s = a @ c # b \<and> c \<notin> set a \<and> i = length a)"
proof (induction s arbitrary: i)
  case Nil
  show ?case by simp
next
  case (Cons x xs)
  show ?case
  proof (cases "x = c")
    case True
    have "(\<exists>a b. x # xs = a @ c # b \<and> c \<notin> set a \<and> i = length a) \<longleftrightarrow> i = 0"
    proof
      assume "\<exists>a b. x # xs = a @ c # b \<and> c \<notin> set a \<and> i = length a"
      then obtain a b where eq: "x # xs = a @ c # b" and nin: "c \<notin> set a" and i: "i = length a"
        by blast
      from eq nin True have "a = []" by (cases a) auto
      with i show "i = 0" by simp
    next
      assume "i = 0"
      with True have "x # xs = [] @ c # xs \<and> c \<notin> set [] \<and> i = length ([] :: char list)" by simp
      then show "\<exists>a b. x # xs = a @ c # b \<and> c \<notin> set a \<and> i = length a" by blast
    qed
    with True show ?thesis by auto
  next
    case False
    have "(\<exists>a b. x # xs = a @ c # b \<and> c \<notin> set a \<and> i = length a)
          \<longleftrightarrow> (\<exists>j. i = Suc j \<and> (\<exists>a b. xs = a @ c # b \<and> c \<notin> set a \<and> j = length a))"
    proof
      assume "\<exists>a b. x # xs = a @ c # b \<and> c \<notin> set a \<and> i = length a"
      then obtain a b where eq: "x # xs = a @ c # b" and nin: "c \<notin> set a" and i: "i = length a"
        by blast
      from eq False obtain a' where a: "a = x # a'" by (cases a) auto
      with eq nin i have "xs = a' @ c # b \<and> c \<notin> set a' \<and> i = Suc (length a')" by simp
      then show "\<exists>j. i = Suc j \<and> (\<exists>a b. xs = a @ c # b \<and> c \<notin> set a \<and> j = length a)" by blast
    next
      assume "\<exists>j. i = Suc j \<and> (\<exists>a b. xs = a @ c # b \<and> c \<notin> set a \<and> j = length a)"
      then obtain a b where eq: "xs = a @ c # b" and nin: "c \<notin> set a" and i: "i = Suc (length a)"
        by blast
      with False have "x # xs = (x # a) @ c # b \<and> c \<notin> set (x # a) \<and> i = length (x # a)" by simp
      then show "\<exists>a b. x # xs = a @ c # b \<and> c \<notin> set a \<and> i = length a" by blast
    qed
    with False Cons.IH show ?thesis by auto
  qed
qed

lemma SplitN2_Some:
  "SplitN2 s = Some (a, b) \<longleftrightarrow> (s = a @ CHR '' '' # b \<and> CHR '' '' \<notin> set a)"
proof
  assume "SplitN2 s = Some (a, b)"
  then obtain i where i: "IndexByte s CHR '' '' = Some i" and a: "a = take i s" and b: "b = drop (Suc i) s"
    unfolding SplitN2_def by auto
  from i obtain a' b' where s: "s = a' @ CHR '' '' # b'" and nin: "CHR '' '' \<notin> set a'" and len: "i = length a'"
    unfolding IndexByte_split by blast
  from s len a b have "a = a'" "b = b'" by simp_all
  with s nin show "s = a @ CHR '' '' # b \<and> CHR '' '' \<notin> set a" by simp
next
  assume r: "s = a @ CHR '' '' # b \<and> CHR '' '' \<notin> set a"
  then have "IndexByte s CHR '' '' = Some (length a)" unfolding IndexByte_split by blast
  with r show "SplitN2 s = Some (a, b)" unfolding SplitN2_def by simp
qed

lemma SplitN2_Bearer: "SplitN2 s = Some (''Bearer'', tok) \<longleftrightarrow> s = ''Bearer '' @ tok"
  unfolding SplitN2_Some by auto

lemma jwt_Parse_Some:
  "jwt_Parse lib tok (keyFunc cfg) = Some t' \<longleftrightarrow>
     (\<exists>t. decode lib tok = Some t \<and> Alg t = ''RS256'' \<and> verify lib t tok (PublicKey cfg)
          \<and> validate lib (Claims t) \<and> t' = t\<lparr>Valid := True\<rparr>)"
  by (auto simp: jwt_Parse_def keyFunc_def split: option.splits)

lemma check_claims_Forward:
  "check_claims oor cfg now r c = Forward r' \<longleftrightarrow>
     (map_of c ''iss'' = Some (JString (cfg_Issuer cfg))
      \<and> map_of c ''aud'' = Some (JString (cfg_Audience cfg))
      \<and> (\<exists>x. map_of c ''exp'' = Some (JNumber x) \<and> now \<le> float64_to_int64 oor x)
      \<and> (\<exists>sub. map_of c ''sub'' = Some (JString sub) \<and> sub \<noteq> []
           \<and> r' = r\<lparr>Ctx := WithIdentity (Ctx r)
                  \<lparr>Type = AuthJWT, Subject = sub, Roles = extractRoles c,
                   Issuer = cfg_Issuer cfg, Audience = cfg_Audience cfg\<rparr>\<rparr>))"
  by (auto simp: check_claims_def split: option.splits json_value.splits)

lemma check_claims_Respond:
  "check_claims oor cfg now r c = Respond code msg \<Longrightarrow> code = 401"
  by (auto simp: check_claims_def split: option.splits json_value.splits if_splits)

lemma JWTMiddleware_Respond:
  "JWTMiddleware lib oor cfg now r = Respond code msg \<Longrightarrow> code = 401"
  by (auto simp: JWTMiddleware_def dest: check_claims_Respond
           split: option.splits if_splits prod.splits)

lemma string_elements_filter:
  "map JString (string_elements vs) = filter (\<lambda>v. \<exists>s. v = JString s) vs"
  by (induction vs rule: string_elements.induct) auto


lemma JWTMiddleware_Forward:
  assumes "URL_Path r \<noteq> ''/health''"
  shows "JWTMiddleware lib oor cfg now r = Forward r' \<longleftrightarrow>
     (\<exists>tokenStr t. Header_Get r ''Authorization'' = ''Bearer '' @ tokenStr
        \<and> decode lib tokenStr = Some t \<and> Alg t = ''RS256''
        \<and> verify lib t tokenStr (PublicKey cfg) \<and> validate lib (Claims t)
        \<and> check_claims oor cfg now r (Claims t) = Forward r')"
proof
  assume fw: "JWTMiddleware lib oor cfg now r = Forward r'"
  from fw assms obtain scheme tokenStr where sp: "SplitN2 (Header_Get r ''Authorization'') = Some (scheme, tokenStr)"
    by (auto simp: JWTMiddleware_def split: option.splits if_splits)
  from fw assms sp have scheme: "scheme = ''Bearer''"
    by (auto simp: JWTMiddleware_def split: option.splits if_splits)
  from fw assms sp scheme obtain token where tk: "jwt_Parse lib tokenStr (keyFunc cfg) = Some token"
    by (auto simp: JWTMiddleware_def split: option.splits if_splits)
  from fw assms sp scheme tk have cc: "check_claims oor cfg now r (Claims token) = Forward r'"
    by (auto simp: JWTMiddleware_def split: option.splits if_splits)
  from tk obtain t where t: "decode lib tokenStr = Some t" "Alg t = ''RS256''"
      "verify lib t tokenStr (PublicKey cfg)" "validate lib (Claims t)" "token = t\<lparr>Valid := True\<rparr>"
    unfolding jwt_Parse_Some by blast
  from sp scheme have "Header_Get r ''Authorization'' = ''Bearer '' @ tokenStr"
    by (simp add: SplitN2_Bearer)
  moreover from cc t(5) have "check_claims oor cfg now r (Claims t) = Forward r'" by simp
  ultimately show "\<exists>tokenStr t. Header_Get r ''Authorization'' = ''Bearer '' @ tokenStr
        \<and> decode lib tokenStr = Some t \<and> Alg t = ''RS256''
        \<and> verify lib t tokenStr (PublicKey cfg) \<and> validate lib (Claims t)
        \<and> check_claims oor cfg now r (Claims t) = Forward r'"
    using t(1-4) by blast
next
  assume "\<exists>tokenStr t. Header_Get r ''Authorization'' = ''Bearer '' @ tokenStr
        \<and> decode lib tokenStr = Some t \<and> Alg t = ''RS256''
        \<and> verify lib t tokenStr (PublicKey cfg) \<and> validate lib (Claims t)
        \<and> check_claims oor cfg now r (Claims t) = Forward r'"
  then obtain tokenStr t where h: "Header_Get r ''Authorization'' = ''Bearer '' @ tokenStr"
    and t: "decode lib tokenStr = Some t" "Alg t = ''RS256''"
      "verify lib t tokenStr (PublicKey cfg)" "validate lib (Claims t)"
    and cc: "check_claims oor cfg now r (Claims t) = Forward r'"
    by blast
  from h have sp: "SplitN2 (Header_Get r ''Authorization'') = Some (''Bearer'', tokenStr)"
    by (simp add: SplitN2_Bearer)
  from t have tk: "jwt_Parse lib tokenStr (keyFunc cfg) = Some (t\<lparr>Valid := True\<rparr>)"
    unfolding jwt_Parse_Some by blast
  from h have ne: "Header_Get r ''Authorization'' \<noteq> []" by simp
  show "JWTMiddleware lib oor cfg now r = Forward r'"
    unfolding JWTMiddleware_def using assms ne sp tk cc by simp
qed

lemma extractRoles_strings:
  "map_of c ''roles'' = Some (JArray vs) \<Longrightarrow>
     map JString (extractRoles c) = filter (\<lambda>v. \<exists>s. v = JString s) vs"
  by (simp add: extractRoles_def string_elements_filter)

lemma extractRoles_none:
  "(\<And>vs. map_of c ''roles'' \<noteq> Some (JArray vs)) \<Longrightarrow> extractRoles c = []"
  by (auto simp: extractRoles_def split: option.splits json_value.splits)

text \<open>
  C9. On a path other than \<^verbatim>\<open>/health\<close> the bearer token authenticator either answers 401 or
  passes the request on, and it passes it on exactly when the \<^verbatim>\<open>Authorization\<close> header is
  \<^verbatim>\<open>Bearer\<close>, one space and a token that decodes, names the algorithm RS256, verifies
  against the configured public key and passes the library's validation, whose \<^verbatim>\<open>iss\<close> and
  \<^verbatim>\<open>aud\<close> claims are the configured strings, whose \<^verbatim>\<open>exp\<close> claim is a number that,
  truncated to 64 bits, is not before the current Unix second, and whose \<^verbatim>\<open>sub\<close> claim is
  a non-empty string. The request passed on carries an \<open>Identity\<close> of type \<open>AuthJWT\<close> with
  that subject, the configured issuer and audience, and as roles the string elements, in
  order, of the \<^verbatim>\<open>roles\<close> array (none when the claim is absent or not an array).
\<close>

theorem JWTMiddleware_authenticates:
  assumes "URL_Path r \<noteq> ''/health''"
  shows "((\<exists>r'. JWTMiddleware lib oor cfg now r = Forward r')
          \<or> (\<exists>msg. JWTMiddleware lib oor cfg now r = Respond 401 msg))
     \<and> (\<forall>r'. JWTMiddleware lib oor cfg now r = Forward r' \<longleftrightarrow>
          (\<exists>tokenStr t x sub.
              Header_Get r ''Authorization'' = ''Bearer '' @ tokenStr
            \<and> decode lib tokenStr = Some t \<and> Alg t = ''RS256''
            \<and> verify lib t tokenStr (PublicKey cfg) \<and> validate lib (Claims t)
            \<and> map_of (Claims t) ''iss'' = Some (JString (cfg_Issuer cfg))
            \<and> map_of (Claims t) ''aud'' = Some (JString (cfg_Audience cfg))
            \<and> map_of (Claims t) ''exp'' = Some (JNumber x) \<and> now \<le> float64_to_int64 oor x
            \<and> map_of (Claims t) ''sub'' = Some (JString sub) \<and> sub \<noteq> []
            \<and> (case map_of (Claims t) ''roles'' of
                  Some (JArray vs) \<Rightarrow>
                    map JString (extractRoles (Claims t)) = filter (\<lambda>v. \<exists>s. v = JString s) vs
                | _ \<Rightarrow> extractRoles (Claims t) = [])
            \<and> r' = r\<lparr>Ctx := WithIdentity (Ctx r)
                     \<lparr>Type = AuthJWT, Subject = sub, Roles = extractRoles (Claims t),
                      Issuer = cfg_Issuer cfg, Audience = cfg_Audience cfg\<rparr>\<rparr>))"
proof (intro conjI allI)
  show "(\<exists>r'. JWTMiddleware lib oor cfg now r = Forward r')
          \<or> (\<exists>msg. JWTMiddleware lib oor cfg now r = Respond 401 msg)"
  proof (cases "JWTMiddleware lib oor cfg now r")
    case (Respond code msg)
    then show ?thesis using JWTMiddleware_Respond [OF Respond] by simp
  next
    case (Forward r')
    then show ?thesis by simp
  qed
next
  fix r'
  have roles: "\<And>c. (case map_of c ''roles'' of
                  Some (JArray vs) \<Rightarrow>
                    map JString (extractRoles c) = filter (\<lambda>v. \<exists>s. v = JString s) vs
                | _ \<Rightarrow> extractRoles c = [])"
    by (auto simp: extractRoles_def string_elements_filter split: option.splits json_value.splits)
  show "JWTMiddleware lib oor cfg now r = Forward r' \<longleftrightarrow>
          (\<exists>tokenStr t x sub.
              Header_Get r ''Authorization'' = ''Bearer '' @ tokenStr
            \<and> decode lib tokenStr = Some t \<and> Alg t = ''RS256''
            \<and> verify lib t tokenStr (PublicKey cfg) \<and> validate lib (Claims t)
            \<and> map_of (Claims t) ''iss'' = Some (JString (cfg_Issuer cfg))
            \<and> map_of (Claims t) ''aud'' = Some (JString (cfg_Audience cfg))
            \<and> map_of (Claims t) ''exp'' = Some (JNumber x) \<and> now \<le> float64_to_int64 oor x
            \<and> map_of (Claims t) ''sub'' = Some (JString sub) \<and> sub \<noteq> []
            \<and> (case map_of (Claims t) ''roles'' of
                  Some (JArray vs) \<Rightarrow>
                    map JString (extractRoles (Claims t)) = filter (\<lambda>v. \<exists>s. v = JString s) vs
                | _ \<Rightarrow> extractRoles (Claims t) = [])
            \<and> r' = r\<lparr>Ctx := WithIdentity (Ctx r)
                     \<lparr>Type = AuthJWT, Subject = sub, Roles = extractRoles (Claims t),
                      Issuer = cfg_Issuer cfg, Audience = cfg_Audience cfg\<rparr>\<rparr>)"
    (is "?L \<longleftrightarrow> ?R")
  proof
    assume ?L
    then obtain tokenStr t where h: "Header_Get r ''Authorization'' = ''Bearer '' @ tokenStr"
      and t: "decode lib tokenStr = Some t" "Alg t = ''RS256''"
        "verify lib t tokenStr (PublicKey cfg)" "validate lib (Claims t)"
      and cc: "check_claims oor cfg now r (Claims t) = Forward r'"
      unfolding JWTMiddleware_Forward [OF assms] by blast
    from cc obtain x sub where c: "map_of (Claims t) ''iss'' = Some (JString (cfg_Issuer cfg))"
        "map_of (Claims t) ''aud'' = Some (JString (cfg_Audience cfg))"
        "map_of (Claims t) ''exp'' = Some (JNumber x)" "now \<le> float64_to_int64 oor x"
        "map_of (Claims t) ''sub'' = Some (JString sub)" "sub \<noteq> []"
        "r' = r\<lparr>Ctx := WithIdentity (Ctx r)
                     \<lparr>Type = AuthJWT, Subject = sub, Roles = extractRoles (Claims t),
                      Issuer = cfg_Issuer cfg, Audience = cfg_Audience cfg\<rparr>\<rparr>"
      unfolding check_claims_Forward by blast
    show ?R
      apply (rule exI [of _ tokenStr], rule exI [of _ t], rule exI [of _ x], rule exI [of _ sub])
      using h t c roles [of "Claims t"] by simp
  next
    assume ?R
    then obtain tokenStr t x sub where h: "Header_Get r ''Authorization'' = ''Bearer '' @ tokenStr"
      and t: "decode lib tokenStr = Some t" "Alg t = ''RS256''"
        "verify lib t tokenStr (PublicKey cfg)" "validate lib (Claims t)"
      and c: "map_of (Claims t) ''iss'' = Some (JString (cfg_Issuer cfg))"
        "map_of (Claims t) ''aud'' = Some (JString (cfg_Audience cfg))"
        "map_of (Claims t) ''exp'' = Some (JNumber x)" "now \<le> float64_to_int64 oor x"
        "map_of (Claims t) ''sub'' = Some (JString sub)" "sub \<noteq> []"
        "r' = r\<lparr>Ctx := WithIdentity (Ctx r)
                     \<lparr>Type = AuthJWT, Subject = sub, Roles = extractRoles (Claims t),
                      Issuer = cfg_Issuer cfg, Audience = cfg_Audience cfg\<rparr>\<rparr>"
      by (elim exE conjE) (rule that, assumption+)
    from c have "check_claims oor cfg now r (Claims t) = Forward r'"
      unfolding check_claims_Forward by simp
    with h t show ?L unfolding JWTMiddleware_Forward [OF assms] by blast
  qed
qed

theorem JWTMiddleware_authenticates_witness:
  "URL_Path jwt_request \<noteq> ''/health''
   \<and> JWTMiddleware jwt_test_library (\<lambda>x. 0) jwt_test_config 1700000000 jwt_request
       = Forward (jwt_request\<lparr>Ctx := WithIdentity (Ctx jwt_request)
            \<lparr>Type = AuthJWT, Subject = ''alice'', Roles = [''admin'', ''dev''],
             Issuer = ''gateway-issuer'', Audience = ''gateway-clients''\<rparr>\<rparr>)
   \<and> (\<exists>msg. JWTMiddleware jwt_test_library (\<lambda>x. 0) jwt_test_config 1700000000 jwt_none_request
          = Respond 401 msg)"
proof -
  have p: "URL_Path jwt_request \<noteq> ''/health''"
    by (simp add: jwt_request_def)
  have q: "URL_Path jwt_none_request \<noteq> ''/health''"
    by (simp add: jwt_request_def jwt_none_request_def)
  have hd: "Header_Get jwt_none_request ''Authorization'' = ''Bearer unsigned.none.token''"
    by (simp add: Header_Get_def jwt_none_request_def jwt_request_def)
  have no: "JWTMiddleware jwt_test_library (\<lambda>x. 0) jwt_test_config 1700000000 jwt_none_request \<noteq> Forward r'" for r'
  proof
    assume "JWTMiddleware jwt_test_library (\<lambda>x. 0) jwt_test_config 1700000000 jwt_none_request = Forward r'"
    from JWTMiddleware_authenticates [OF q, THEN conjunct2, THEN spec, THEN iffD1, OF this]
    obtain tokenStr t where "Header_Get jwt_none_request ''Authorization'' = ''Bearer '' @ tokenStr"
      "decode jwt_test_library tokenStr = Some t" "Alg t = ''RS256''"
      by blast
    then show False
      by (auto simp: hd jwt_test_library_def jwt_none_token_def jwt_test_token_def split: if_splits)
  qed
  with JWTMiddleware_authenticates [OF q, THEN conjunct1, of jwt_test_library "\<lambda>x. 0" jwt_test_config 1700000000]
  have rej: "\<exists>msg. JWTMiddleware jwt_test_library (\<lambda>x. 0) jwt_test_config 1700000000 jwt_none_request
          = Respond 401 msg"
    by simp
  have roles: "extractRoles (Claims jwt_test_token) = [''admin'', ''dev'']"
    by (simp add: extractRoles_def jwt_test_token_def)
  have "\<exists>tokenStr t x sub.
              Header_Get jwt_request ''Authorization'' = ''Bearer '' @ tokenStr
            \<and> decode jwt_test_library tokenStr = Some t \<and> Alg t = ''RS256''
            \<and> verify jwt_test_library t tokenStr (PublicKey jwt_test_config)
            \<and> validate jwt_test_library (Claims t)
            \<and> map_of (Claims t) ''iss'' = Some (JString (cfg_Issuer jwt_test_config))
            \<and> map_of (Claims t) ''aud'' = Some (JString (cfg_Audience jwt_test_config))
            \<and> map_of (Claims t) ''exp'' = Some (JNumber x)
            \<and> (1700000000 :: int) \<le> float64_to_int64 (\<lambda>x. 0) x
            \<and> map_of (Claims t) ''sub'' = Some (JString sub) \<and> sub \<noteq> []
            \<and> (case map_of (Claims t) ''roles'' of
                  Some (JArray vs) \<Rightarrow>
                    map JString (extractRoles (Claims t)) = filter (\<lambda>v. \<exists>s. v = JString s) vs
                | _ \<Rightarrow> extractRoles (Claims t) = [])
            \<and> jwt_request\<lparr>Ctx := WithIdentity (Ctx jwt_request)
                  \<lparr>Type = AuthJWT, Subject = ''alice'', Roles = [''admin'', ''dev''],
                   Issuer = ''gateway-issuer'', Audience = ''gateway-clients''\<rparr>\<rparr>
              = jwt_request\<lparr>Ctx := WithIdentity (Ctx jwt_request)
                     \<lparr>Type = AuthJWT, Subject = sub, Roles = extractRoles (Claims t),
                      Issuer = cfg_Issuer jwt_test_config, Audience = cfg_Audience jwt_test_config\<rparr>\<rparr>"
    apply (rule exI [of _ "''signed.rs256.token''"], rule exI [of _ jwt_test_token])
    apply (rule exI [of _ 2000000000], rule exI [of _ "''alice''"])
    apply (simp add: roles)
    apply (simp add: Header_Get_def jwt_request_def jwt_test_library_def jwt_test_token_def
        jwt_test_config_def float64_to_int64_def extractRoles_def)
    done
  then have "JWTMiddleware jwt_test_library (\<lambda>x. 0) jwt_test_config 1700000000 jwt_request
       = Forward (jwt_request\<lparr>Ctx := WithIdentity (Ctx jwt_request)
            \<lparr>Type = AuthJWT, Subject = ''alice'', Roles = [''admin'', ''dev''],
             Issuer = ''gateway-issuer'', Audience = ''gateway-clients''\<rparr>\<rparr>)"
    by (rule JWTMiddleware_authenticates [OF p, THEN conjunct2, THEN spec, THEN iffD2])
  with p rej show ?thesis by simp
qed

end
